theory Spec2Isabelle
  imports Main "HOL-Library.AList" "HOL-Library.Sublist"
begin

section \<open>Errors and results\<close>

text \<open>
  Every exception the TypeScript code can see is a value of \<open>error\<close>. \<open>Error m\<close> is
  \<^verbatim>\<open>new Error(m)\<close>; \<open>TypeError\<close> is what \<^verbatim>\<open>new URL(s)\<close> throws on an invalid
  URL; the three HTTP errors are the ones of the community server; \<open>BlobNotFoundError\<close>
  and \<open>BlobError\<close> are the failures of the object store client (the second stands for
  every failure other than a missing key: access, network, rate limit).
\<close>

datatype error =
    Error string
  | TypeError string
  | NotFoundHttpError
  | BadRequestHttpError string
  | UnsupportedMediaTypeHttpError string
  | InternalServerError string
  | BlobNotFoundError
  | BlobError string

text \<open>
  \<^verbatim>\<open>error.message\<close>. The store client prefixes each of its messages with
  \<^verbatim>\<open>Vercel Blob: \<close>; \<^verbatim>\<open>new NotFoundHttpError()\<close> and
  \<^verbatim>\<open>new NotFoundHttpError('', { cause })\<close> both carry the empty message.
\<close>

fun message :: "error \<Rightarrow> string" where
  "message (Error m) = m"
| "message (TypeError m) = m"
| "message NotFoundHttpError = ''''"
| "message (BadRequestHttpError m) = m"
| "message (UnsupportedMediaTypeHttpError m) = m"
| "message (InternalServerError m) = m"
| "message BlobNotFoundError = ''Vercel Blob: The requested blob does not exist''"
| "message (BlobError m) = ''Vercel Blob: '' @ m"

text \<open>The test \<^verbatim>\<open>error instanceof Error && error.message == "ENOENT"\<close>.\<close>

definition isENOENT :: "error \<Rightarrow> bool" where
  "isENOENT e = (message e = ''ENOENT'')"

text \<open>
  An asynchronous operation is a function of the state that returns its outcome
  (\<open>Inl\<close> the exception thrown, \<open>Inr\<close> the value returned) and the state it leaves
  behind; the state survives a failure, as the store's contents do.
\<close>

type_synonym ('a, 's) prog = "'s \<Rightarrow> (error + 'a) \<times> 's"

definition returnE :: "'a \<Rightarrow> ('a, 's) prog" where
  "returnE x = (\<lambda>s. (Inr x, s))"

definition throwE :: "error \<Rightarrow> ('a, 's) prog" where
  "throwE e = (\<lambda>s. (Inl e, s))"

definition liftE :: "error + 'a \<Rightarrow> ('a, 's) prog" where
  "liftE r = (\<lambda>s. (r, s))"

definition bindE :: "('a, 's) prog \<Rightarrow> ('a \<Rightarrow> ('b, 's) prog) \<Rightarrow> ('b, 's) prog" where
  "bindE m f = (\<lambda>s. case m s of (Inl e, s') \<Rightarrow> (Inl e, s') | (Inr x, s') \<Rightarrow> f x s')"

definition catchE :: "('a, 's) prog \<Rightarrow> (error \<Rightarrow> ('a, 's) prog) \<Rightarrow> ('a, 's) prog" where
  "catchE m h = (\<lambda>s. case m s of (Inl e, s') \<Rightarrow> h e s' | (Inr x, s') \<Rightarrow> (Inr x, s'))"

section \<open>Strings\<close>

definition endsWith :: "string \<Rightarrow> string \<Rightarrow> bool" where
  "endsWith s t = suffix t s"

definition startsWith :: "string \<Rightarrow> string \<Rightarrow> bool" where
  "startsWith s t = prefix t s"

section \<open>The object store client\<close>

text \<open>
  The Object Store Client (\<^verbatim>\<open>head\<close>, \<^verbatim>\<open>put\<close>, \<^verbatim>\<open>del\<close>, \<^verbatim>\<open>list\<close> of the
  package \<^verbatim>\<open>@vercel/blob\<close>, and \<^verbatim>\<open>fetch\<close> of a blob's URL) is an external
  collaborator; the model follows the contract the specification gives for it. The
  store is a flat association list from key to object; a blob's URL is identified with
  its key, and \<^verbatim>\<open>list\<close> returns every match (no paging). \<open>head\<close> fails with \<open>BlobNotFoundError\<close> on an absent key, \<open>put\<close>
  overwrites (\<^verbatim>\<open>allowOverwrite: true\<close>), \<open>del\<close> of an absent key is not an error,
  \<open>list\<close> returns the objects whose key starts with the prefix.

  Any call may also fail for a reason of the store's own. \<open>faults\<close> is the schedule of
  these outages: each client call consumes its head, \<open>Some m\<close> makes the call fail with
  \<open>BlobError m\<close> and leaves the store as it was, \<open>None\<close> (or an exhausted schedule) lets
  it through. \<open>now\<close> is the store's clock in milliseconds; it is read, never advanced,
  by the operations.
\<close>

record stored =
  content :: string
  stamp :: nat

record world =
  blobs :: "(string \<times> stored) list"
  now :: nat
  faults :: "string option list"

record headResult =
  pathname :: string
  url :: string
  hsize :: nat
  uploadedAt :: nat

definition call :: "('a, world) prog \<Rightarrow> ('a, world) prog" where
  "call op w =
     (case faults w of
        [] \<Rightarrow> op w
      | None # fs \<Rightarrow> op (w\<lparr>faults := fs\<rparr>)
      | Some m # fs \<Rightarrow> (Inl (BlobError m), w\<lparr>faults := fs\<rparr>))"

definition describe :: "string \<Rightarrow> stored \<Rightarrow> headResult" where
  "describe k b = \<lparr>pathname = k, url = k, hsize = length (content b), uploadedAt = stamp b\<rparr>"

definition head :: "string \<Rightarrow> (headResult, world) prog" where
  "head k = call (\<lambda>w. case map_of (blobs w) k of
                        None \<Rightarrow> (Inl BlobNotFoundError, w)
                      | Some b \<Rightarrow> (Inr (describe k b), w))"

definition fetch :: "string \<Rightarrow> (string, world) prog" where
  "fetch u = call (\<lambda>w. case map_of (blobs w) u of
                         None \<Rightarrow> (Inl (TypeError ''fetch failed''), w)
                       | Some b \<Rightarrow> (Inr (content b), w))"

definition put :: "string \<Rightarrow> string \<Rightarrow> (unit, world) prog" where
  "put k body = call (\<lambda>w. (Inr (),
       w\<lparr>blobs := AList.update k \<lparr>content = body, stamp = now w\<rparr> (blobs w)\<rparr>))"

definition del :: "string \<Rightarrow> (unit, world) prog" where
  "del k = call (\<lambda>w. (Inr (), w\<lparr>blobs := AList.delete k (blobs w)\<rparr>))"

definition list_blobs :: "string \<Rightarrow> (headResult list, world) prog" where
  "list_blobs pfx = call (\<lambda>w. (Inr (map (\<lambda>(k, b). describe k b)
       (filter (\<lambda>(k, b). startsWith k pfx) (blobs w))), w))"

text \<open>Whether a key holds an object.\<close>

definition exists_key :: "world \<Rightarrow> string \<Rightarrow> bool" where
  "exists_key w k = (map_of (blobs w) k \<noteq> None)"

section \<open>VercelApi.ts: the file-system look-alike over the store\<close>

record stats =
  isFile :: bool
  isDirectory :: bool
  mtime :: nat
  stat_size :: nat

definition FOLDER_MARKER :: string where
  "FOLDER_MARKER = ''.FOLDER_MARKER_META_FILE''"

definition createReadStream :: "string \<Rightarrow> (string, world) prog" where
  "createReadStream path = bindE (head path) (\<lambda>headResponse. fetch (url headResponse))"

definition createWriteStream :: "string \<Rightarrow> string \<Rightarrow> (unit, world) prog" where
  "createWriteStream path data = put path data"

definition stat :: "string \<Rightarrow> (stats, world) prog" where
  "stat path =
     (if endsWith path ''/'' then
        catchE (bindE (head (path @ FOLDER_MARKER)) (\<lambda>headResponse.
                  returnE \<lparr>isFile = False, isDirectory = True,
                           mtime = uploadedAt headResponse, stat_size = 0\<rparr>))
               (\<lambda>e. throwE (Error ''ENOENT''))
      else
        catchE (bindE (head path) (\<lambda>headResponse.
                  returnE \<lparr>isFile = \<not> endsWith (pathname headResponse) ''/'',
                           isDirectory = endsWith (pathname headResponse) ''/'',
                           mtime = uploadedAt headResponse, stat_size = hsize headResponse\<rparr>))
               (\<lambda>e. throwE (Error ''ENOENT'')))"

definition ensureDir :: "string \<Rightarrow> (unit, world) prog" where
  "ensureDir path =
     catchE (bindE (stat path) (\<lambda>_. returnE ()))
            (\<lambda>error. if isENOENT error then put (path @ FOLDER_MARKER) ''nothing here''
                      else throwE error)"

definition lstat :: "string \<Rightarrow> (stats, world) prog" where
  "lstat path = stat path"

definition opendir :: "string \<Rightarrow> (string list, world) prog" where
  "opendir path = throwE (Error ''Not implemented'')"

definition remove :: "string \<Rightarrow> (unit, world) prog" where
  "remove dir = del dir"

section \<open>Library functions the adapter calls\<close>

text \<open>
  The JavaScript runtime and the community server supply functions whose code is not
  part of this repository. They are parameters of the model: \<open>urlPathname s\<close> is
  \<^verbatim>\<open>new URL(s).pathname\<close> (\<open>None\<close> when the constructor throws),
  \<open>serializeQuads\<close> and \<open>parseQuads\<close> are the metadata codec (the second takes the
  stream's content, the format and the base IRI), \<open>toISOString\<close> and \<open>dateParse\<close>
  print and read a date (milliseconds, \<open>None\<close> for an invalid date),
  \<open>numberToString\<close> prints an integer, \<open>joinFilePath\<close> joins two path segments,
  \<open>parseContentType\<close> returns the media type of a content-type header value or
  throws, and \<open>decodeUriPathComponents\<close> percent-decodes the segments of a path.
\<close>

datatype rdfterm =
    NamedNode string
  | Literal string string
  | BlankNode string
  | DefaultGraph

record quad =
  subject :: rdfterm
  predicate :: rdfterm
  object :: rdfterm
  graph :: rdfterm

record lib =
  urlPathname :: "string \<Rightarrow> string option"
  serializeQuads :: "quad list \<Rightarrow> string option \<Rightarrow> string"
  parseQuads :: "string \<Rightarrow> string option \<Rightarrow> string \<Rightarrow> error + quad list"
  toISOString :: "nat \<Rightarrow> string"
  dateParse :: "string \<Rightarrow> nat option"
  numberToString :: "nat \<Rightarrow> string"
  joinFilePath :: "string \<Rightarrow> string \<Rightarrow> string"
  parseContentType :: "string \<Rightarrow> error + string"
  decodeUriPathComponents :: "string \<Rightarrow> string"

fun termValue :: "rdfterm \<Rightarrow> string" where
  "termValue (NamedNode v) = v"
| "termValue (Literal v dt) = v"
| "termValue (BlankNode v) = v"
| "termValue DefaultGraph = []"

subsection \<open>Vocabulary\<close>

definition RDF_type :: rdfterm where
  "RDF_type = NamedNode ''http://www.w3.org/1999/02/22-rdf-syntax-ns#type''"

definition LDP_Resource :: rdfterm where
  "LDP_Resource = NamedNode ''http://www.w3.org/ns/ldp#Resource''"

definition LDP_Container :: rdfterm where
  "LDP_Container = NamedNode ''http://www.w3.org/ns/ldp#Container''"

definition LDP_BasicContainer :: rdfterm where
  "LDP_BasicContainer = NamedNode ''http://www.w3.org/ns/ldp#BasicContainer''"

definition DC_modified :: rdfterm where
  "DC_modified = NamedNode ''http://purl.org/dc/terms/modified''"

definition CONTENT_TYPE_TERM :: rdfterm where
  "CONTENT_TYPE_TERM = NamedNode ''http://www.w3.org/ns/ma-ont#format''"

definition POSIX_mtime :: rdfterm where
  "POSIX_mtime = NamedNode ''http://www.w3.org/ns/posix/stat#mtime''"

definition POSIX_size :: rdfterm where
  "POSIX_size = NamedNode ''http://www.w3.org/ns/posix/stat#size''"

definition SOLID_META_ResponseMetadata :: rdfterm where
  "SOLID_META_ResponseMetadata = NamedNode ''urn:npm:solid:community-server:meta:ResponseMetadata''"

definition XSD_integer :: string where
  "XSD_integer = ''http://www.w3.org/2001/XMLSchema#integer''"

definition XSD_dateTime :: string where
  "XSD_dateTime = ''http://www.w3.org/2001/XMLSchema#dateTime''"

definition XSD_string :: string where
  "XSD_string = ''http://www.w3.org/2001/XMLSchema#string''"

definition IANA_namespace :: string where
  "IANA_namespace = ''http://www.w3.org/ns/iana/media-types/''"

subsection \<open>RepresentationMetadata\<close>

text \<open>
  The community server's \<^verbatim>\<open>RepresentationMetadata\<close> (the specification's
  MetadataSet) is a class outside this repository: a mutable collection of quads
  about one subject, \<open>ident\<close>, without duplicates. \<open>md_remove\<close> and \<open>md_removeAll\<close> touch only the quads whose subject is
  \<open>ident\<close>, in every graph; \<open>md_quads\<close> returns all quads, whatever their subject;
  \<open>md_get\<close> returns the one object of a predicate, nothing when there is none, and
  throws when there are several; the content-type is the value of the object of the
  reserved predicate \<open>CONTENT_TYPE_TERM\<close>.
\<close>

record ResourceIdentifier =
  path :: string

record metadata =
  ident :: rdfterm
  store :: "quad list"

definition md_new :: "ResourceIdentifier \<Rightarrow> metadata" where
  "md_new i = \<lparr>ident = NamedNode (path i), store = []\<rparr>"

definition md_quads :: "metadata \<Rightarrow> quad list" where
  "md_quads m = store m"

definition md_addQuad :: "quad \<Rightarrow> metadata \<Rightarrow> metadata" where
  "md_addQuad q m = (if q \<in> set (store m) then m else m\<lparr>store := store m @ [q]\<rparr>)"

definition md_addQuads :: "quad list \<Rightarrow> metadata \<Rightarrow> metadata" where
  "md_addQuads qs m = fold md_addQuad qs m"

definition md_add :: "rdfterm \<Rightarrow> rdfterm \<Rightarrow> rdfterm \<Rightarrow> metadata \<Rightarrow> metadata" where
  "md_add p ob g m = md_addQuad \<lparr>subject = ident m, predicate = p, object = ob, graph = g\<rparr> m"

definition md_remove :: "rdfterm \<Rightarrow> rdfterm \<Rightarrow> metadata \<Rightarrow> metadata" where
  "md_remove p ob m =
     m\<lparr>store := filter (\<lambda>q. \<not> (subject q = ident m \<and> predicate q = p \<and> object q = ob)) (store m)\<rparr>"

definition md_removeAll :: "rdfterm \<Rightarrow> metadata \<Rightarrow> metadata" where
  "md_removeAll p m =
     m\<lparr>store := filter (\<lambda>q. \<not> (subject q = ident m \<and> predicate q = p)) (store m)\<rparr>"

definition md_getAll :: "rdfterm \<Rightarrow> metadata \<Rightarrow> rdfterm list" where
  "md_getAll p m = map object (filter (\<lambda>q. subject q = ident m \<and> predicate q = p) (store m))"

definition md_get :: "rdfterm \<Rightarrow> metadata \<Rightarrow> error + rdfterm option" where
  "md_get p m =
     (case md_getAll p m of
        [] \<Rightarrow> Inr None
      | [t] \<Rightarrow> Inr (Some t)
      | _ \<Rightarrow> Inl (InternalServerError (''Multiple results for '' @ termValue p)))"

text \<open>\<^verbatim>\<open>metadata.set(p, o)\<close>: an undefined object only removes.\<close>

definition md_set :: "rdfterm \<Rightarrow> rdfterm option \<Rightarrow> metadata \<Rightarrow> metadata" where
  "md_set p ob m =
     (case ob of None \<Rightarrow> md_removeAll p m
      | Some t \<Rightarrow> md_add p t DefaultGraph (md_removeAll p m))"

definition md_contentType :: "metadata \<Rightarrow> error + string option" where
  "md_contentType m =
     (case md_get CONTENT_TYPE_TERM m of
        Inl e \<Rightarrow> Inl e
      | Inr t \<Rightarrow> Inr (map_option termValue t))"

section \<open>The identifier mapper\<close>

record ResourceLink =
  "identifier" :: ResourceIdentifier
  filePath :: string
  contentType :: "string option"
  isMetadata :: bool

record mapper =
  mapFilePathToUrl :: "string \<Rightarrow> bool \<Rightarrow> error + ResourceLink"
  mapUrlToFilePath :: "ResourceIdentifier \<Rightarrow> bool \<Rightarrow> string option \<Rightarrow> error + ResourceLink"

definition isContainerIdentifier :: "ResourceIdentifier \<Rightarrow> bool" where
  "isContainerIdentifier i = endsWith (path i) ''/''"

definition isContainerPath :: "string \<Rightarrow> bool" where
  "isContainerPath p = endsWith p ''/''"

text \<open>The class \<^verbatim>\<open>fim\<close> of VercelBlobDataAccessor.ts: its link carries no content-type.\<close>

definition fim_mapUrlToFilePath ::
  "lib \<Rightarrow> ResourceIdentifier \<Rightarrow> bool \<Rightarrow> string option \<Rightarrow> error + ResourceLink" where
  "fim_mapUrlToFilePath l i isMeta ct =
     (let a = path i in
      case urlPathname l a of
        None \<Rightarrow> Inl (TypeError ''Invalid URL'')
      | Some c \<Rightarrow>
          let d = c @ (if isMeta then ''.meta'' else []);
              e = ''x'' @ d
          in Inr \<lparr>identifier = i, filePath = e, contentType = None, isMetadata = isMeta\<rparr>)"

definition fim :: "lib \<Rightarrow> mapper" where
  "fim l = \<lparr>mapFilePathToUrl = (\<lambda>fp isContainer. Inl (Error ''fim mapFilePathToUrl not implemented'')),
            mapUrlToFilePath = fim_mapUrlToFilePath l\<rparr>"

section \<open>VercelBlobDataAccessor.ts\<close>

text \<open>
  The accessor holds its mapper. The constructor ignores the mapper it is given and
  installs \<^verbatim>\<open>new fim()\<close>.
\<close>

record accessor =
  resourceMapper :: mapper

definition VercelBlobDataAccessor :: "lib \<Rightarrow> mapper \<Rightarrow> accessor" where
  "VercelBlobDataAccessor l resourceMapper0 = \<lparr>resourceMapper = fim l\<rparr>"

text \<open>
  The write operations mutate the metadata object the caller passes in. Their state is
  therefore the pair of that object and the store; \<open>onWorld\<close> runs a store operation
  in it, \<open>mutate\<close> is an in-place update of the object and \<open>inspect\<close> a getter that
  may throw.
\<close>

definition onWorld :: "('a, world) prog \<Rightarrow> ('a, metadata \<times> world) prog" where
  "onWorld m = (\<lambda>(md, w). case m w of (r, w') \<Rightarrow> (r, (md, w')))"

definition mutate :: "(metadata \<Rightarrow> metadata) \<Rightarrow> (unit, metadata \<times> world) prog" where
  "mutate f = (\<lambda>(md, w). (Inr (), (f md, w)))"

definition inspect :: "(metadata \<Rightarrow> error + 'a) \<Rightarrow> ('a, metadata \<times> world) prog" where
  "inspect f = (\<lambda>(md, w). (f md, (md, w)))"

definition canHandle :: "bool \<Rightarrow> (unit, 's) prog" where
  "canHandle binary =
     (if \<not> binary then throwE (UnsupportedMediaTypeHttpError ''Only binary data is supported.'')
      else returnE ())"

definition getStats :: "string \<Rightarrow> (stats, world) prog" where
  "getStats p =
     catchE (stat p)
            (\<lambda>error. if isENOENT error then throwE NotFoundHttpError else throwE error)"

definition getData :: "accessor \<Rightarrow> ResourceIdentifier \<Rightarrow> (string, world) prog" where
  "getData acc i =
     bindE (liftE (mapUrlToFilePath (resourceMapper acc) i False None)) (\<lambda>link.
     bindE (getStats (filePath link)) (\<lambda>stats.
       if isFile stats then createReadStream (filePath link)
       else throwE NotFoundHttpError))"

definition verifyExistingExtension :: "accessor \<Rightarrow> ResourceLink \<Rightarrow> (unit, world) prog" where
  "verifyExistingExtension acc link =
     bindE (liftE (mapUrlToFilePath (resourceMapper acc) (identifier link) False None)) (\<lambda>oldLink.
       if filePath oldLink \<noteq> filePath link then remove (filePath oldLink)
       else returnE ())"

definition writeDataFile :: "string \<Rightarrow> string \<Rightarrow> (unit, world) prog" where
  "writeDataFile p data = createWriteStream p data"

definition writeMetadataFile :: "lib \<Rightarrow> accessor \<Rightarrow> ResourceLink \<Rightarrow> (bool, metadata \<times> world) prog" where
  "writeMetadataFile l acc link =
     bindE (mutate (md_remove RDF_type LDP_Resource)) (\<lambda>_.
     bindE (mutate (md_remove RDF_type LDP_Container)) (\<lambda>_.
     bindE (mutate (md_remove RDF_type LDP_BasicContainer)) (\<lambda>_.
     bindE (mutate (md_removeAll DC_modified)) (\<lambda>_.
     bindE (if isContainerPath (filePath link) then returnE True
            else bindE (inspect md_contentType) (\<lambda>ct. returnE (contentType link = ct))) (\<lambda>dropType.
     bindE (if dropType then mutate (md_removeAll CONTENT_TYPE_TERM) else returnE ()) (\<lambda>_.
     bindE (inspect (\<lambda>m. Inr (md_quads m))) (\<lambda>quads.
     bindE (liftE (mapUrlToFilePath (resourceMapper acc) (identifier link) True None)) (\<lambda>metadataLink.
       if length quads > 0 then
         bindE (onWorld (writeDataFile (filePath metadataLink)
                  (serializeQuads l quads (contentType metadataLink)))) (\<lambda>_.
         returnE True)
       else
         bindE (onWorld (remove (filePath metadataLink))) (\<lambda>_.
         returnE False)))))))))"

definition writeDocument ::
  "lib \<Rightarrow> accessor \<Rightarrow> ResourceIdentifier \<Rightarrow> string \<Rightarrow> (unit, metadata \<times> world) prog" where
  "writeDocument l acc i data =
     bindE (inspect md_contentType) (\<lambda>ct.
     bindE (liftE (mapUrlToFilePath (resourceMapper acc) i False ct)) (\<lambda>link.
     bindE (onWorld (verifyExistingExtension acc link)) (\<lambda>_.
     bindE (writeMetadataFile l acc link) (\<lambda>wroteMetadata.
     catchE (onWorld (writeDataFile (filePath link) data)) (\<lambda>error.
       bindE (if wroteMetadata then
                bindE (liftE (mapUrlToFilePath (resourceMapper acc) i True None)) (\<lambda>metaLink.
                onWorld (remove (filePath metaLink)))
              else returnE ()) (\<lambda>_.
       throwE error))))))"

definition writeContainer ::
  "lib \<Rightarrow> accessor \<Rightarrow> ResourceIdentifier \<Rightarrow> (unit, metadata \<times> world) prog" where
  "writeContainer l acc i =
     bindE (liftE (mapUrlToFilePath (resourceMapper acc) i False None)) (\<lambda>link.
     bindE (onWorld (ensureDir (filePath link))) (\<lambda>_.
     bindE (writeMetadataFile l acc link) (\<lambda>_.
     returnE ())))"

definition writeMetadata ::
  "lib \<Rightarrow> accessor \<Rightarrow> ResourceIdentifier \<Rightarrow> (unit, metadata \<times> world) prog" where
  "writeMetadata l acc i =
     bindE (liftE (mapUrlToFilePath (resourceMapper acc) i True None)) (\<lambda>metadataLink.
     bindE (writeMetadataFile l acc metadataLink) (\<lambda>_.
     returnE ()))"

definition deleteResource :: "accessor \<Rightarrow> ResourceIdentifier \<Rightarrow> (unit, world) prog" where
  "deleteResource acc i =
     bindE (liftE (mapUrlToFilePath (resourceMapper acc) i True None)) (\<lambda>metaLink.
     bindE (remove (filePath metaLink)) (\<lambda>_.
     bindE (liftE (mapUrlToFilePath (resourceMapper acc) i False None)) (\<lambda>link.
     bindE (getStats (filePath link)) (\<lambda>stats.
       if \<not> isContainerIdentifier i \<and> isFile stats then remove (filePath link)
       else if isContainerIdentifier i \<and> isDirectory stats then remove (filePath link)
       else throwE NotFoundHttpError))))"

subsection \<open>Reading metadata\<close>

text \<open>
  \<^verbatim>\<open>updateModifiedDate\<close> and \<^verbatim>\<open>addResourceMetadata\<close> are the community server's helpers:
  the first sets the one \<open>dc:modified\<close> value to the date without its milliseconds,
  the second adds the LDP types of the resource's kind.
\<close>

definition updateModifiedDate :: "lib \<Rightarrow> nat \<Rightarrow> metadata \<Rightarrow> metadata" where
  "updateModifiedDate l date m =
     (let lastModified = (date div 1000) * 1000
      in md_set DC_modified (Some (Literal (toISOString l lastModified) XSD_dateTime)) m)"

definition addResourceMetadata :: "bool \<Rightarrow> metadata \<Rightarrow> metadata" where
  "addResourceMetadata isContainer m =
     (let m1 = (if isContainer
                then md_add RDF_type LDP_BasicContainer DefaultGraph
                       (md_add RDF_type LDP_Container DefaultGraph m)
                else m)
      in md_add RDF_type LDP_Resource DefaultGraph m1)"

text \<open>
  \<^verbatim>\<open>modified < stats.mtime\<close> is false when \<open>modified\<close> is an invalid date; a missing
  \<open>dc:modified\<close> counts as date 0.
\<close>

definition addPosixMetadata :: "lib \<Rightarrow> stats \<Rightarrow> metadata \<Rightarrow> error + metadata" where
  "addPosixMetadata l st m =
     (case md_get DC_modified m of
        Inl e \<Rightarrow> Inl e
      | Inr t \<Rightarrow>
          let modified = (case t of None \<Rightarrow> Some 0 | Some v \<Rightarrow> dateParse l (termValue v));
              m1 = (if (case modified of None \<Rightarrow> False | Some d \<Rightarrow> d < mtime st)
                    then updateModifiedDate l (mtime st) m else m);
              m2 = md_add POSIX_mtime (Literal (numberToString l (mtime st div 1000)) XSD_integer)
                     SOLID_META_ResponseMetadata m1;
              m3 = (if \<not> isDirectory st
                    then md_add POSIX_size (Literal (numberToString l (stat_size st)) XSD_integer)
                           SOLID_META_ResponseMetadata m2
                    else m2)
          in Inr m3)"

definition getRawMetadata :: "lib \<Rightarrow> accessor \<Rightarrow> ResourceIdentifier \<Rightarrow> (metadata, world) prog" where
  "getRawMetadata l acc i =
     catchE
       (bindE (liftE (mapUrlToFilePath (resourceMapper acc) i True None)) (\<lambda>metadataLink.
        bindE (lstat (filePath metadataLink)) (\<lambda>st.
        bindE (createReadStream (filePath metadataLink)) (\<lambda>readMetadataStream.
        bindE (liftE (parseQuads l readMetadataStream (contentType metadataLink) (path i))) (\<lambda>quads.
        returnE (updateModifiedDate l (mtime st) (md_addQuads quads (md_new i))))))))
       (\<lambda>error. if \<not> isENOENT error then throwE error else returnE (md_new i))"

definition getBaseMetadata ::
  "lib \<Rightarrow> accessor \<Rightarrow> ResourceLink \<Rightarrow> stats \<Rightarrow> bool \<Rightarrow> (metadata, world) prog" where
  "getBaseMetadata l acc link st isContainer =
     bindE (getRawMetadata l acc (identifier link)) (\<lambda>m.
     liftE (addPosixMetadata l st (addResourceMetadata isContainer m)))"

definition getFileMetadata ::
  "lib \<Rightarrow> accessor \<Rightarrow> ResourceLink \<Rightarrow> stats \<Rightarrow> (metadata, world) prog" where
  "getFileMetadata l acc link st =
     bindE (getBaseMetadata l acc link st False) (\<lambda>m.
     bindE (liftE (md_contentType m)) (\<lambda>ct.
       if ct = None
       then returnE (md_set CONTENT_TYPE_TERM
                       (map_option (\<lambda>v. Literal v XSD_string) (contentType link)) m)
       else returnE m))"

definition getDirectoryMetadata ::
  "lib \<Rightarrow> accessor \<Rightarrow> ResourceLink \<Rightarrow> stats \<Rightarrow> (metadata, world) prog" where
  "getDirectoryMetadata l acc link st = getBaseMetadata l acc link st True"

definition getMetadata :: "lib \<Rightarrow> accessor \<Rightarrow> ResourceIdentifier \<Rightarrow> (metadata, world) prog" where
  "getMetadata l acc i =
     bindE (liftE (mapUrlToFilePath (resourceMapper acc) i False None)) (\<lambda>link.
     bindE (getStats (filePath link)) (\<lambda>st.
       if \<not> isContainerIdentifier i \<and> isFile st then getFileMetadata l acc link st
       else if isContainerIdentifier i \<and> isDirectory st then getDirectoryMetadata l acc link st
       else throwE NotFoundHttpError))"

subsection \<open>Listing children through opendir\<close>

text \<open>
  The generator \<^verbatim>\<open>getChildMetadata\<close> walks the entries \<^verbatim>\<open>opendir\<close> returns. The
  model returns the records it yields as a list; an exception ends it.
\<close>

fun childMetadata :: "lib \<Rightarrow> accessor \<Rightarrow> ResourceLink \<Rightarrow> string list \<Rightarrow> (metadata list, world) prog" where
  "childMetadata l acc link [] = returnE []"
| "childMetadata l acc link (entry # rest) =
     (let childPath = joinFilePath l (filePath link) entry in
      bindE (catchE (bindE (getStats childPath) (\<lambda>st. returnE (Some st))) (\<lambda>e. returnE None))
        (\<lambda>childStats.
          case childStats of
            None \<Rightarrow> childMetadata l acc link rest
          | Some st \<Rightarrow>
              if \<not> isFile st \<and> \<not> isDirectory st then childMetadata l acc link rest
              else
                bindE (liftE (mapFilePathToUrl (resourceMapper acc) childPath (isDirectory st)))
                  (\<lambda>childLink.
                    if isMetadata childLink then childMetadata l acc link rest
                    else
                      bindE (liftE (addPosixMetadata l st
                               (addResourceMetadata (isDirectory st) (md_new (identifier childLink)))))
                        (\<lambda>m.
                          let m' = (case contentType childLink of
                                      None \<Rightarrow> m
                                    | Some ct \<Rightarrow>
                                        if ct = [] then m
                                        else (case parseContentType l ct of
                                                Inl e \<Rightarrow> m
                                              | Inr v \<Rightarrow>
                                                  md_add RDF_type
                                                    (NamedNode (IANA_namespace @ v @ ''#Resource''))
                                                    DefaultGraph m))
                          in bindE (childMetadata l acc link rest) (\<lambda>ms. returnE (m' # ms))))))"

definition getChildMetadata :: "lib \<Rightarrow> accessor \<Rightarrow> ResourceLink \<Rightarrow> (metadata list, world) prog" where
  "getChildMetadata l acc link =
     bindE (opendir (filePath link)) (\<lambda>dir. childMetadata l acc link dir)"

definition getChildren :: "lib \<Rightarrow> accessor \<Rightarrow> ResourceIdentifier \<Rightarrow> (metadata list, world) prog" where
  "getChildren l acc i =
     bindE (liftE (mapUrlToFilePath (resourceMapper acc) i False None)) (\<lambda>link.
     getChildMetadata l acc link)"

section \<open>The prefix-listing draft of the accessor\<close>

text \<open>
  Another draft of the accessor in the repository keeps the mapper its constructor is
  given, lists children with the store's \<^verbatim>\<open>list\<close> and stats a container by listing
  its prefix. Its \<^verbatim>\<open>writeDocument\<close>, \<^verbatim>\<open>verifyExistingExtension\<close>,
  \<^verbatim>\<open>writeMetadataFile\<close> and \<^verbatim>\<open>writeMetadata\<close> are the text of the ones above,
  with private copies of \<^verbatim>\<open>remove\<close> and \<^verbatim>\<open>createWriteStream\<close>, so the
  definitions above, taken at any accessor, stand for them too. The functions that
  differ carry the suffix \<open>_listing\<close>.
\<close>

definition VercelBlobDataAccessor_listing :: "mapper \<Rightarrow> accessor" where
  "VercelBlobDataAccessor_listing resourceMapper0 = \<lparr>resourceMapper = resourceMapper0\<rparr>"

text \<open>\<^verbatim>\<open>s.indexOf(c)\<close>, \<open>None\<close> for -1.\<close>

fun indexOf :: "string \<Rightarrow> char \<Rightarrow> nat option" where
  "indexOf [] c = None"
| "indexOf (x # xs) c = (if x = c then Some 0 else map_option Suc (indexOf xs c))"

definition getBlobIdentifier :: "accessor \<Rightarrow> ResourceIdentifier \<Rightarrow> (string, world) prog" where
  "getBlobIdentifier acc i =
     bindE (liftE (mapUrlToFilePath (resourceMapper acc) i False None)) (\<lambda>link.
     returnE (drop 1 (filePath link)))"

definition childOf :: "string \<Rightarrow> headResult \<Rightarrow> string" where
  "childOf pfx blob =
     (let relativePath = drop (length pfx) (pathname blob);
          slashIndex = indexOf relativePath (CHR ''/'')
      in case slashIndex of
           None \<Rightarrow> relativePath
         | Some n \<Rightarrow> take (n + 1) relativePath)"

definition getChildren_listing :: "accessor \<Rightarrow> ResourceIdentifier \<Rightarrow> (metadata list, world) prog" where
  "getChildren_listing acc i =
     bindE (getBlobIdentifier acc i) (\<lambda>pfx.
     bindE (list_blobs pfx) (\<lambda>listResponse.
     returnE (map (\<lambda>p. md_new \<lparr>path = p\<rparr>) (map (childOf pfx) listResponse))))"

definition currentDate :: "(nat, world) prog" where
  "currentDate = (\<lambda>w. (Inr (now w), w))"

definition stat_listing :: "string \<Rightarrow> (stats, world) prog" where
  "stat_listing p =
     (if endsWith p ''/'' then
        catchE (bindE (list_blobs p) (\<lambda>listResponse.
                bindE currentDate (\<lambda>date.
                  returnE \<lparr>isFile = False, isDirectory = True, mtime = date, stat_size = 0\<rparr>)))
               (\<lambda>e. throwE (Error ''ENOENT''))
      else
        catchE (bindE (head (drop 1 p)) (\<lambda>headResponse.
                  returnE \<lparr>isFile = \<not> endsWith (pathname headResponse) ''/'',
                           isDirectory = endsWith (pathname headResponse) ''/'',
                           mtime = uploadedAt headResponse, stat_size = hsize headResponse\<rparr>))
               (\<lambda>e. throwE (Error ''ENOENT'')))"

definition getStats_listing :: "string \<Rightarrow> (stats, world) prog" where
  "getStats_listing p =
     catchE (stat_listing p)
            (\<lambda>error. if isENOENT error then throwE NotFoundHttpError else throwE error)"

subsection \<open>BlobIdentifierMapper\<close>

text \<open>\<^verbatim>\<open>trimTrailingSlashes\<close> removes every slash at the end of a path.\<close>

definition trimTrailingSlashes :: "string \<Rightarrow> string" where
  "trimTrailingSlashes p = rev (dropWhile (\<lambda>c. c = CHR ''/'') (rev p))"

definition includes_str :: "string \<Rightarrow> string \<Rightarrow> bool" where
  "includes_str s t = sublist t s"

definition getRelativePath :: "lib \<Rightarrow> string \<Rightarrow> ResourceIdentifier \<Rightarrow> error + string" where
  "getRelativePath l baseRequestURI i =
     (if \<not> startsWith (path i) baseRequestURI then Inl NotFoundHttpError
      else Inr (decodeUriPathComponents l (drop (length baseRequestURI) (path i))))"

definition validateRelativePath :: "string \<Rightarrow> ResourceIdentifier \<Rightarrow> error + unit" where
  "validateRelativePath p i =
     (if \<not> startsWith p ''/'' then Inl (BadRequestHttpError ''URL needs a / after the base'')
      else if includes_str p ''/../'' \<or> endsWith p ''/..''
      then Inl (BadRequestHttpError ''Disallowed /../ segment in URL'')
      else Inr ())"

definition BlobIdentifierMapper_mapUrlToFilePath ::
  "lib \<Rightarrow> string \<Rightarrow> ResourceIdentifier \<Rightarrow> bool \<Rightarrow> string option \<Rightarrow> error + ResourceLink" where
  "BlobIdentifierMapper_mapUrlToFilePath l baseRequestURI i isMeta ct =
     (case getRelativePath l baseRequestURI i of
        Inl e \<Rightarrow> Inl e
      | Inr p0 \<Rightarrow>
          let p = (if isMeta then p0 @ ''.meta'' else p0) in
          case validateRelativePath p i of
            Inl e \<Rightarrow> Inl e
          | Inr u \<Rightarrow>
              if isContainerIdentifier i
              then Inr \<lparr>identifier = i, filePath = p, contentType = None,
                        isMetadata = endsWith p ''.meta''\<rparr>
              else Inr \<lparr>identifier = i, filePath = p, contentType = ct,
                        isMetadata = endsWith p ''.meta''\<rparr>)"

definition BlobIdentifierMapper :: "lib \<Rightarrow> string \<Rightarrow> mapper" where
  "BlobIdentifierMapper l base =
     \<lparr>mapFilePathToUrl = (\<lambda>fp isContainer. Inl (Error ''fim mapFilePathToUrl not implemented'')),
      mapUrlToFilePath = BlobIdentifierMapper_mapUrlToFilePath l (trimTrailingSlashes base)\<rparr>"

section \<open>What the specification says a sidecar holds\<close>

text \<open>
  The specification's filtering rule, in its words: a write drops the triples that
  restate storage-derived facts (the kind and container markers and the modification
  time of the resource) and drops the explicit content-type when it matches the type
  implied by the key (or the key is a container's). \<open>withoutStorageFacts\<close> is that
  rule as one filter; the code applies it as a sequence of removals.
\<close>

definition restatesStorageFact :: "metadata \<Rightarrow> quad \<Rightarrow> bool" where
  "restatesStorageFact m q =
     (subject q = ident m \<and>
      (predicate q = RDF_type \<and>
         (object q = LDP_Resource \<or> object q = LDP_Container \<or> object q = LDP_BasicContainer)
       \<or> predicate q = DC_modified))"

definition statesContentType :: "metadata \<Rightarrow> quad \<Rightarrow> bool" where
  "statesContentType m q = (subject q = ident m \<and> predicate q = CONTENT_TYPE_TERM)"

definition typeImpliedByKey :: "ResourceLink \<Rightarrow> metadata \<Rightarrow> bool" where
  "typeImpliedByKey link m =
     (isContainerPath (filePath link) \<or> md_contentType m = Inr (contentType link))"

definition withoutStorageFacts :: "bool \<Rightarrow> metadata \<Rightarrow> metadata" where
  "withoutStorageFacts dropType m =
     m\<lparr>store := filter (\<lambda>q. \<not> restatesStorageFact m q \<and> \<not> (dropType \<and> statesContentType m q))
                    (store m)\<rparr>"

text \<open>
  The specification's child naming, in its words: a suffix with no separator names a
  document; otherwise the name is the first segment and the separator after it.
\<close>

definition directChild :: "string \<Rightarrow> string" where
  "directChild rel =
     (if CHR ''/'' \<notin> set rel then rel
      else takeWhile (\<lambda>c. c \<noteq> CHR ''/'') rel @ ''/'')"

text \<open>
  The state of a sidecar key after a write: absent when the metadata has no quads
  left, and otherwise the serialization of exactly these quads.
\<close>

definition sidecarHolds :: "lib \<Rightarrow> world \<Rightarrow> string \<Rightarrow> metadata \<Rightarrow> bool" where
  "sidecarHolds l w key m =
     (if md_quads m = [] then \<not> exists_key w key
      else map_option content (map_of (blobs w) key) = Some (serializeQuads l (md_quads m) None))"

text \<open>The four removals \<^verbatim>\<open>writeMetadataFile\<close> starts with, as one function.\<close>

definition strip4 :: "metadata \<Rightarrow> metadata" where
  "strip4 m = md_removeAll DC_modified (md_remove RDF_type LDP_BasicContainer
                (md_remove RDF_type LDP_Container (md_remove RDF_type LDP_Resource m)))"


section \<open>A concrete environment\<close>

text \<open>
  The instances below run the definitions on concrete inputs: a URL parser for the
  host \<open>h\<close> (the pathname ends where a query or a fragment starts) and a codec
  that prints one statement per quad and reads back the one document it is asked to.
\<close>

text \<open>A stored object, and a store that answers every call, at time 5.\<close>

definition blob :: "string \<Rightarrow> nat \<Rightarrow> stored" where
  "blob c t = \<lparr>content = c, stamp = t\<rparr>"

definition calm :: "(string \<times> stored) list \<Rightarrow> world" where
  "calm bs = \<lparr>blobs = bs, now = 5, faults = []\<rparr>"

definition demo_serialize :: "quad list \<Rightarrow> string option \<Rightarrow> string" where
  "demo_serialize qs fmt =
     concat (map (\<lambda>q. termValue (subject q) @ '' '' @ termValue (predicate q) @ '' ''
                       @ termValue (object q) @ '' .'') qs)"

definition demo_id :: ResourceIdentifier where
  "demo_id = \<lparr>path = ''http://h/docs/a''\<rparr>"

definition demo_type_quad :: quad where
  "demo_type_quad = \<lparr>subject = NamedNode ''http://h/docs/a'', predicate = CONTENT_TYPE_TERM,
                      object = Literal ''text/plain'' XSD_string, graph = DefaultGraph\<rparr>"

definition demo_size_quad :: quad where
  "demo_size_quad = \<lparr>subject = NamedNode ''http://h/docs/a'', predicate = POSIX_size,
                      object = Literal ''5'' XSD_integer, graph = SOLID_META_ResponseMetadata\<rparr>"

definition demo_kind_quad :: quad where
  "demo_kind_quad = \<lparr>subject = NamedNode ''http://h/docs/a'', predicate = RDF_type,
                      object = LDP_Resource, graph = DefaultGraph\<rparr>"

definition demo_parse :: "string \<Rightarrow> string option \<Rightarrow> string \<Rightarrow> error + quad list" where
  "demo_parse s fmt base =
     (if s = [] then Inr []
      else if s = demo_serialize [demo_type_quad] None then Inr [demo_type_quad]
      else Inl (Error ''parse error''))"

definition demo_lib :: lib where
  "demo_lib =
     \<lparr>urlPathname = (\<lambda>s. if startsWith s ''http://h/''
                          then Some (takeWhile (\<lambda>c. c \<noteq> CHR ''?'' \<and> c \<noteq> CHR ''#'') (drop 8 s))
                          else None),
      serializeQuads = demo_serialize,
      parseQuads = demo_parse,
      toISOString = (\<lambda>t. ''1970-01-01T00:00:00.000Z''),
      dateParse = (\<lambda>s. None),
      numberToString = (\<lambda>n. ''0''),
      joinFilePath = (\<lambda>a b. a @ b),
      parseContentType = (\<lambda>s. Inr s),
      decodeUriPathComponents = (\<lambda>s. s)\<rparr>"

definition demo_acc :: accessor where
  "demo_acc = VercelBlobDataAccessor demo_lib (fim demo_lib)"

definition demo_md :: metadata where
  "demo_md = \<lparr>ident = NamedNode ''http://h/docs/a'', store = [demo_type_quad]\<rparr>"

definition demo_md_kind :: metadata where
  "demo_md_kind = \<lparr>ident = NamedNode ''http://h/docs/a'', store = [demo_kind_quad, demo_type_quad]\<rparr>"

definition demo_md_size :: metadata where
  "demo_md_size = \<lparr>ident = NamedNode ''http://h/docs/a'', store = [demo_size_quad]\<rparr>"


definition demo_md_only_kind :: metadata where
  "demo_md_only_kind = \<lparr>ident = NamedNode ''http://h/docs/a'', store = [demo_kind_quad]\<rparr>"

definition demo_md_empty :: metadata where
  "demo_md_empty = \<lparr>ident = NamedNode ''http://h/docs/a'', store = []\<rparr>"

definition demo_blob_acc :: accessor where
  "demo_blob_acc = VercelBlobDataAccessor_listing (BlobIdentifierMapper demo_lib ''http://h/'')"

definition demo_docs :: "(string \<times> stored) list" where
  "demo_docs = [(''docs/a.txt'', blob ''hello'' 1), (''docs/a.txt.meta'', blob ''meta'' 1),
                (''docs/sub/b.txt'', blob ''b'' 2), (''docs/sub/c.txt'', blob ''c'' 3)]"

text \<open>
  A container, a document identifier with a query (its pathname is the container's),
  and metadata that states a kind, a modification time and a content-type.
\<close>

definition demo_dir :: ResourceIdentifier where
  "demo_dir = \<lparr>path = ''http://h/docs/''\<rparr>"

definition demo_query_id :: ResourceIdentifier where
  "demo_query_id = \<lparr>path = ''http://h/docs/?v=1''\<rparr>"

definition demo_turtle_quad :: "string \<Rightarrow> quad" where
  "demo_turtle_quad s = \<lparr>subject = NamedNode s, predicate = CONTENT_TYPE_TERM,
                         object = Literal ''text/turtle'' XSD_string, graph = DefaultGraph\<rparr>"

definition demo_modified_quad :: "string \<Rightarrow> quad" where
  "demo_modified_quad s = \<lparr>subject = NamedNode s, predicate = DC_modified,
                           object = Literal ''1970-01-01T00:00:00.000Z'' XSD_dateTime,
                           graph = DefaultGraph\<rparr>"

definition demo_container_quad :: "string \<Rightarrow> quad" where
  "demo_container_quad s = \<lparr>subject = NamedNode s, predicate = RDF_type,
                            object = LDP_Container, graph = DefaultGraph\<rparr>"

definition demo_md_full :: "string \<Rightarrow> metadata" where
  "demo_md_full s = \<lparr>ident = NamedNode s,
                      store = [demo_container_quad s, demo_modified_quad s, demo_turtle_quad s]\<rparr>"

definition demo_md_turtle :: "string \<Rightarrow> metadata" where
  "demo_md_turtle s = \<lparr>ident = NamedNode s, store = [demo_turtle_quad s]\<rparr>"


section \<open>Properties\<close>

subsection \<open>Running programs\<close>

lemma bindE_simps:
  "bindE (returnE x) f s = f x s"
  "bindE (throwE e) f s = (Inl e, s)"
  "bindE (liftE (Inr x)) f s = f x s"
  "bindE (liftE (Inl e)) f s = (Inl e, s)"
  by (simp_all add: bindE_def returnE_def throwE_def liftE_def)

lemma bindE_cases:
  "bindE m f s = (case m s of (Inl e, s') \<Rightarrow> (Inl e, s') | (Inr x, s') \<Rightarrow> f x s')"
  by (simp add: bindE_def)

lemma fim_map:
  "mapUrlToFilePath (resourceMapper (VercelBlobDataAccessor l m)) i isMeta ct =
     (case urlPathname l (path i) of
        None \<Rightarrow> Inl (TypeError ''Invalid URL'')
      | Some c \<Rightarrow> Inr \<lparr>identifier = i, filePath = ''x'' @ c @ (if isMeta then ''.meta'' else []),
                      contentType = None, isMetadata = isMeta\<rparr>)"
  by (simp add: VercelBlobDataAccessor_def fim_def fim_mapUrlToFilePath_def Let_def
           split: option.splits)

subsection \<open>The hardcoded mapper\<close>

text \<open>
  C9. The mapper the constructor installs resolves an identifier to the same link
  whatever content-type it is given; the key is \<open>x\<close> followed by the URL's pathname,
  followed by \<open>.meta\<close> for a sidecar. So for the link \<^verbatim>\<open>writeDocument\<close> obtains,
  \<^verbatim>\<open>verifyExistingExtension\<close> finds the old and the new path equal: it returns
  without a call to the store, which it leaves as it was.
\<close>

theorem fim_key_ignores_contentType:
  "mapUrlToFilePath (resourceMapper (VercelBlobDataAccessor l m)) i isMeta t1 =
     mapUrlToFilePath (resourceMapper (VercelBlobDataAccessor l m)) i isMeta t2
   \<and> (\<forall>c. urlPathname l (path i) = Some c \<longrightarrow>
         map_sum id filePath
           (mapUrlToFilePath (resourceMapper (VercelBlobDataAccessor l m)) i isMeta t1)
           = Inr (''x'' @ c @ (if isMeta then ''.meta'' else [])))
   \<and> (\<forall>link w. mapUrlToFilePath (resourceMapper (VercelBlobDataAccessor l m)) i False t1 = Inr link \<longrightarrow>
         verifyExistingExtension (VercelBlobDataAccessor l m) link w = (Inr (), w))"
  by (auto simp: fim_map verifyExistingExtension_def bindE_simps returnE_def
           split: option.splits)

theorem fim_key_ignores_contentType_witness:
  "urlPathname demo_lib (path demo_id) = Some ''/docs/a''
   \<and> mapUrlToFilePath (resourceMapper demo_acc) demo_id False (Some ''text/plain'')
       = Inr \<lparr>identifier = demo_id, filePath = ''x/docs/a'', contentType = None, isMetadata = False\<rparr>
   \<and> map_sum id filePath (mapUrlToFilePath (resourceMapper demo_acc) demo_id True (Some ''text/html''))
       = Inr ''x/docs/a.meta''
   \<and> verifyExistingExtension demo_acc
        \<lparr>identifier = demo_id, filePath = ''x/docs/a'', contentType = None, isMetadata = False\<rparr>
        \<lparr>blobs = [(''x/docs/a.txt'', blob ''old'' 1)], now = 5, faults = [Some ''down'']\<rparr>
       = (Inr (), \<lparr>blobs = [(''x/docs/a.txt'', blob ''old'' 1)], now = 5, faults = [Some ''down'']\<rparr>)"
proof -
  have p: "urlPathname demo_lib (path demo_id) = Some ''/docs/a''"
    by code_simp
  have m: "mapUrlToFilePath (resourceMapper demo_acc) demo_id False (Some ''text/plain'')
       = Inr \<lparr>identifier = demo_id, filePath = ''x/docs/a'', contentType = None, isMetadata = False\<rparr>"
    by code_simp
  note t = fim_key_ignores_contentType [of demo_lib "fim demo_lib" demo_id True "Some ''text/html''" "Some ''text/plain''"]
  note u = fim_key_ignores_contentType [of demo_lib "fim demo_lib" demo_id False "Some ''text/plain''" None]
  have "map_sum id filePath
          (mapUrlToFilePath (resourceMapper (VercelBlobDataAccessor demo_lib (fim demo_lib)))
             demo_id True (Some ''text/html''))
        = Inr (''x'' @ ''/docs/a'' @ (if True then ''.meta'' else []))"
    using t p by blast
  then have k: "map_sum id filePath
          (mapUrlToFilePath (resourceMapper demo_acc) demo_id True (Some ''text/html''))
        = Inr ''x/docs/a.meta''"
    by (simp add: demo_acc_def)
  have "verifyExistingExtension (VercelBlobDataAccessor demo_lib (fim demo_lib))
          \<lparr>identifier = demo_id, filePath = ''x/docs/a'', contentType = None, isMetadata = False\<rparr>
          \<lparr>blobs = [(''x/docs/a.txt'', blob ''old'' 1)], now = 5, faults = [Some ''down'']\<rparr>
        = (Inr (), \<lparr>blobs = [(''x/docs/a.txt'', blob ''old'' 1)], now = 5, faults = [Some ''down'']\<rparr>)"
    using u m unfolding demo_acc_def by blast
  then show ?thesis
    using p m k by (simp add: demo_acc_def)
qed

subsection \<open>Store calls\<close>

lemma call_calm: "faults w = [] \<Longrightarrow> call op w = op w"
  by (simp add: call_def)

lemma call_Inr:
  assumes "call op w = (Inr x, w')"
  shows "\<exists>w0. op w0 = (Inr x, w') \<and> blobs w0 = blobs w \<and> now w0 = now w"
  using assms by (auto simp: call_def split: list.splits option.splits)

lemma put_Inr:
  assumes "put k body w = (Inr u, w')"
  shows "blobs w' = AList.update k \<lparr>content = body, stamp = now w\<rparr> (blobs w) \<and> now w' = now w"
  using call_Inr [OF assms [unfolded put_def]] by auto

lemma del_Inr:
  assumes "del k w = (Inr u, w')"
  shows "blobs w' = AList.delete k (blobs w) \<and> now w' = now w"
  using call_Inr [OF assms [unfolded del_def]] by auto

lemma exists_key_delete: "blobs w' = AList.delete k (blobs w) \<Longrightarrow> \<not> exists_key w' k"
  by (simp add: exists_key_def delete_conv')

lemma exists_key_update: "blobs w' = AList.update k v (blobs w) \<Longrightarrow> exists_key w' k"
  by (simp add: exists_key_def update_conv')

lemma onWorld_apply: "onWorld m (md, w) = (case m w of (r, w') \<Rightarrow> (r, (md, w')))"
  by (simp add: onWorld_def)

lemma writeMetadataFile_wrote:
  assumes "writeMetadataFile l acc link (md, w) = (Inr True, (md1, w1))"
      and "mapUrlToFilePath (resourceMapper acc) (identifier link) True None = Inr metaLink"
  shows "exists_key w1 (filePath metaLink)"
  using assms
  apply (simp add: writeMetadataFile_def bindE_cases mutate_def inspect_def returnE_def liftE_def onWorld_apply writeDataFile_def createWriteStream_def remove_def
      split: if_splits sum.splits prod.splits)
  apply (auto dest!: put_Inr intro: exists_key_update)
  done

subsection \<open>The hardcoded mapper never migrates\<close>

lemma verifyExistingExtension_fim:
  "mapUrlToFilePath (resourceMapper (VercelBlobDataAccessor l m)) i False ct = Inr link \<Longrightarrow>
   verifyExistingExtension (VercelBlobDataAccessor l m) link w = (Inr (), w)"
  by (auto simp: fim_map verifyExistingExtension_def bindE_simps returnE_def
           split: option.splits)

subsection \<open>Rollback of the sidecar\<close>

lemma call_Inl:
  assumes "call op w = (Inl e, w')" and "\<And>w0. \<exists>x w1. op w0 = (Inr x, w1)"
  shows "blobs w' = blobs w \<and> now w' = now w"
proof (cases "faults w")
  case Nil
  with assms(1) have "op w = (Inl e, w')" by (simp add: call_def)
  with assms(2) [of w] show ?thesis by auto
next
  case (Cons f fs)
  show ?thesis
  proof (cases f)
    case None
    with Cons assms(1) have "op (w\<lparr>faults := fs\<rparr>) = (Inl e, w')" by (simp add: call_def)
    with assms(2) [of "w\<lparr>faults := fs\<rparr>"] show ?thesis by auto
  next
    case (Some m)
    with Cons assms(1) show ?thesis by (auto simp: call_def)
  qed
qed

lemma put_Inl:
  assumes "put k body w = (Inl e, w')"
  shows "blobs w' = blobs w \<and> now w' = now w"
  by (rule call_Inl [OF assms [unfolded put_def]]) simp

lemma del_Inl:
  assumes "del k w = (Inl e, w')"
  shows "blobs w' = blobs w \<and> now w' = now w"
  by (rule call_Inl [OF assms [unfolded del_def]]) simp

text \<open>
  C1, as amended. In \<^verbatim>\<open>writeDocument\<close>, when the sidecar write succeeded
  (\<^verbatim>\<open>wroteMetadata\<close> is true) and the data write fails with \<open>e\<close>, the sidecar key,
  which existed after the sidecar write, is deleted. When that delete succeeds the
  operation fails with \<open>e\<close> and the sidecar key does not exist afterwards; when the
  delete fails too, the operation fails with the delete's error and the sidecar key
  still exists.
\<close>

theorem writeDocument_rollback:
  assumes pathname: "urlPathname l (path i) = Some c"
      and getter: "md_contentType md = Inr ct"
      and sidecar: "writeMetadataFile l (VercelBlobDataAccessor l m)
                      \<lparr>identifier = i, filePath = ''x'' @ c, contentType = None, isMetadata = False\<rparr>
                      (md, w) = (Inr True, (md1, w1))"
      and data_fails: "writeDataFile (''x'' @ c) data w1 = (Inl e, w2)"
      and cleanup: "remove (''x'' @ c @ ''.meta'') w2 = (r, w3)"
  shows "writeDocument l (VercelBlobDataAccessor l m) i data (md, w)
           = ((case r of Inl e' \<Rightarrow> Inl e' | Inr u \<Rightarrow> Inl e), (md1, w3))
         \<and> exists_key w1 (''x'' @ c @ ''.meta'')
         \<and> (exists_key w3 (''x'' @ c @ ''.meta'') \<longleftrightarrow> r \<noteq> Inr ())"
proof -
  let ?acc = "VercelBlobDataAccessor l m"
  let ?link = "\<lparr>identifier = i, filePath = ''x'' @ c, contentType = None, isMetadata = False\<rparr>"
  have link: "mapUrlToFilePath (resourceMapper ?acc) i False ct = Inr ?link"
    using pathname by (simp add: fim_map)
  have meta: "mapUrlToFilePath (resourceMapper ?acc) i True None =
      Inr \<lparr>identifier = i, filePath = ''x'' @ c @ ''.meta'', contentType = None, isMetadata = True\<rparr>"
    using pathname by (simp add: fim_map)
  have same: "verifyExistingExtension ?acc ?link w = (Inr (), w)"
    using link by (simp add: verifyExistingExtension_fim)
  have run: "writeDocument l ?acc i data (md, w)
               = ((case r of Inl e' \<Rightarrow> Inl e' | Inr u \<Rightarrow> Inl e), (md1, w3))"
    unfolding writeDocument_def
    using getter link meta same sidecar data_fails cleanup
    by (simp add: bindE_cases catchE_def inspect_def liftE_def onWorld_apply throwE_def
          split: sum.splits)
  have written: "exists_key w1 (''x'' @ c @ ''.meta'')"
    using writeMetadataFile_wrote [OF sidecar] meta by simp
  from data_fails have "blobs w2 = blobs w1"
    using put_Inl [of "''x'' @ c" data w1 e w2] by (simp add: writeDataFile_def createWriteStream_def)
  with written have kept: "exists_key w2 (''x'' @ c @ ''.meta'')"
    by (simp add: exists_key_def)
  have after: "exists_key w3 (''x'' @ c @ ''.meta'') \<longleftrightarrow> r \<noteq> Inr ()"
  proof (cases r)
    case (Inl e')
    with cleanup have "blobs w3 = blobs w2"
      using del_Inl [of "''x'' @ c @ ''.meta''" w2 e' w3] by (simp add: remove_def)
    with kept Inl show ?thesis by (simp add: exists_key_def)
  next
    case (Inr u)
    with cleanup have "del (''x'' @ c @ ''.meta'') w2 = (Inr (), w3)"
      by (simp add: remove_def)
    from del_Inr [OF this] exists_key_delete Inr show ?thesis by auto
  qed
  from run written after show ?thesis by simp
qed

theorem writeDocument_rollback_witness:
  "urlPathname demo_lib (path demo_id) = Some ''/docs/a''
   \<and> md_contentType demo_md = Inr (Some ''text/plain'')
   \<and> writeMetadataFile demo_lib demo_acc
         \<lparr>identifier = demo_id, filePath = ''x/docs/a'', contentType = None, isMetadata = False\<rparr>
         (demo_md, \<lparr>blobs = [], now = 5, faults = [None, Some ''put down'']\<rparr>)
       = (Inr True, (demo_md,
           \<lparr>blobs = [(''x/docs/a.meta'', blob (demo_serialize [demo_type_quad] None) 5)],
            now = 5, faults = [Some ''put down'']\<rparr>))
   \<and> writeDataFile ''x/docs/a'' ''hello''
         \<lparr>blobs = [(''x/docs/a.meta'', blob (demo_serialize [demo_type_quad] None) 5)],
          now = 5, faults = [Some ''put down'']\<rparr>
       = (Inl (BlobError ''put down''),
           \<lparr>blobs = [(''x/docs/a.meta'', blob (demo_serialize [demo_type_quad] None) 5)],
            now = 5, faults = []\<rparr>)
   \<and> remove ''x/docs/a.meta''
         \<lparr>blobs = [(''x/docs/a.meta'', blob (demo_serialize [demo_type_quad] None) 5)],
          now = 5, faults = []\<rparr>
       = (Inr (), \<lparr>blobs = [], now = 5, faults = []\<rparr>)
   \<and> writeDocument demo_lib demo_acc demo_id ''hello''
         (demo_md, \<lparr>blobs = [], now = 5, faults = [None, Some ''put down'']\<rparr>)
       = (Inl (BlobError ''put down''), (demo_md, \<lparr>blobs = [], now = 5, faults = []\<rparr>))
   \<and> \<not> exists_key \<lparr>blobs = [], now = 5, faults = []\<rparr> ''x/docs/a.meta''"
proof -
  let ?w1 = "\<lparr>blobs = [(''x/docs/a.meta'', blob (demo_serialize [demo_type_quad] None) 5)],
              now = 5, faults = [Some ''put down'']\<rparr>"
  let ?w2 = "\<lparr>blobs = [(''x/docs/a.meta'', blob (demo_serialize [demo_type_quad] None) 5)],
              now = 5, faults = []\<rparr>"
  have h1: "urlPathname demo_lib (path demo_id) = Some ''/docs/a''"
    by code_simp
  have h2: "md_contentType demo_md = Inr (Some ''text/plain'')"
    by code_simp
  have h3: "writeMetadataFile demo_lib (VercelBlobDataAccessor demo_lib (fim demo_lib))
         \<lparr>identifier = demo_id, filePath = ''x'' @ ''/docs/a'', contentType = None, isMetadata = False\<rparr>
         (demo_md, \<lparr>blobs = [], now = 5, faults = [None, Some ''put down'']\<rparr>)
       = (Inr True, (demo_md, ?w1))"
    by code_simp
  have h4: "writeDataFile (''x'' @ ''/docs/a'') ''hello'' ?w1 = (Inl (BlobError ''put down''), ?w2)"
    by code_simp
  have h5: "remove (''x'' @ ''/docs/a'' @ ''.meta'') ?w2 = (Inr (), \<lparr>blobs = [], now = 5, faults = []\<rparr>)"
    by code_simp
  note t = writeDocument_rollback [OF h1 h2 h3 h4 h5]
  show ?thesis
    using h1 h2 h3 h4 h5 t by (simp add: demo_acc_def)
qed

text \<open>
  The claim as stated fails when the store is still down for the compensating delete:
  the sidecar write succeeded and the data write failed, yet the error raised is the
  delete's and the sidecar key still exists.
\<close>

theorem writeDocument_rollback_counterexample:
  "writeMetadataFile demo_lib demo_acc
         \<lparr>identifier = demo_id, filePath = ''x/docs/a'', contentType = None, isMetadata = False\<rparr>
         (demo_md, \<lparr>blobs = [], now = 5, faults = [None, Some ''put down'', Some ''delete down'']\<rparr>)
       = (Inr True, (demo_md,
           \<lparr>blobs = [(''x/docs/a.meta'', blob (demo_serialize [demo_type_quad] None) 5)],
            now = 5, faults = [Some ''put down'', Some ''delete down'']\<rparr>))
   \<and> writeDataFile ''x/docs/a'' ''hello''
         \<lparr>blobs = [(''x/docs/a.meta'', blob (demo_serialize [demo_type_quad] None) 5)],
          now = 5, faults = [Some ''put down'', Some ''delete down'']\<rparr>
       = (Inl (BlobError ''put down''),
           \<lparr>blobs = [(''x/docs/a.meta'', blob (demo_serialize [demo_type_quad] None) 5)],
            now = 5, faults = [Some ''delete down'']\<rparr>)
   \<and> writeDocument demo_lib demo_acc demo_id ''hello''
         (demo_md, \<lparr>blobs = [], now = 5, faults = [None, Some ''put down'', Some ''delete down'']\<rparr>)
       = (Inl (BlobError ''delete down''), (demo_md,
           \<lparr>blobs = [(''x/docs/a.meta'', blob (demo_serialize [demo_type_quad] None) 5)],
            now = 5, faults = []\<rparr>))
   \<and> exists_key
         \<lparr>blobs = [(''x/docs/a.meta'', blob (demo_serialize [demo_type_quad] None) 5)],
          now = 5, faults = []\<rparr> ''x/docs/a.meta''"
  by code_simp

subsection \<open>Filtering the metadata\<close>

lemma vocabulary_distinct:
  "CONTENT_TYPE_TERM \<noteq> RDF_type" "CONTENT_TYPE_TERM \<noteq> DC_modified"
  "RDF_type \<noteq> CONTENT_TYPE_TERM" "DC_modified \<noteq> CONTENT_TYPE_TERM"
  "RDF_type \<noteq> DC_modified" "DC_modified \<noteq> RDF_type"
  by (simp_all add: CONTENT_TYPE_TERM_def RDF_type_def DC_modified_def)

lemma strip4_eq: "strip4 m = withoutStorageFacts False m"
proof -
  have "store (strip4 m) = store (withoutStorageFacts False m)"
    unfolding strip4_def withoutStorageFacts_def md_removeAll_def md_remove_def
      restatesStorageFact_def
    by (simp, intro filter_cong refl) auto
  moreover have "ident (strip4 m) = ident (withoutStorageFacts False m)"
    by (simp add: strip4_def withoutStorageFacts_def md_removeAll_def md_remove_def)
  ultimately show ?thesis by simp
qed

lemma strip5_eq: "md_removeAll CONTENT_TYPE_TERM (strip4 m) = withoutStorageFacts True m"
proof -
  have "store (md_removeAll CONTENT_TYPE_TERM (strip4 m)) = store (withoutStorageFacts True m)"
    unfolding strip4_def withoutStorageFacts_def md_removeAll_def md_remove_def
      restatesStorageFact_def statesContentType_def
    by (simp, intro filter_cong refl) auto
  moreover have "ident (md_removeAll CONTENT_TYPE_TERM (strip4 m)) = ident (withoutStorageFacts True m)"
    by (simp add: strip4_def withoutStorageFacts_def md_removeAll_def md_remove_def)
  ultimately show ?thesis by simp
qed

lemma md_contentType_strip4: "md_contentType (strip4 m) = md_contentType m"
proof -
  have "md_getAll CONTENT_TYPE_TERM (strip4 m) = md_getAll CONTENT_TYPE_TERM m"
    by (auto simp: strip4_def md_getAll_def md_removeAll_def md_remove_def vocabulary_distinct
          intro!: arg_cong [where f = "map object"] filter_cong)
  then show ?thesis by (simp add: md_contentType_def md_get_def)
qed


lemma writeMetadataFile_run:
  "writeMetadataFile l acc link (md, w) =
     (case (if isContainerPath (filePath link) then Inr True
            else map_sum id (\<lambda>ct. contentType link = ct) (md_contentType md)) of
        Inl e \<Rightarrow> (Inl e, (withoutStorageFacts False md, w))
      | Inr dropType \<Rightarrow>
          let md' = withoutStorageFacts dropType md in
          case mapUrlToFilePath (resourceMapper acc) (identifier link) True None of
            Inl e \<Rightarrow> (Inl e, (md', w))
          | Inr metaLink \<Rightarrow>
              if md_quads md' \<noteq> [] then
                (case put (filePath metaLink)
                        (serializeQuads l (md_quads md') (contentType metaLink)) w of
                   (r, w') \<Rightarrow> (map_sum id (\<lambda>u. True) r, (md', w')))
              else
                (case del (filePath metaLink) w of
                   (r, w') \<Rightarrow> (map_sum id (\<lambda>u. False) r, (md', w'))))"
proof -
  have four: "md_removeAll DC_modified (md_remove RDF_type LDP_BasicContainer
                (md_remove RDF_type LDP_Container (md_remove RDF_type LDP_Resource md)))
              = withoutStorageFacts False md"
    using strip4_eq [of md] by (simp add: strip4_def)
  have five: "md_removeAll CONTENT_TYPE_TERM (withoutStorageFacts False md)
              = withoutStorageFacts True md"
    using strip5_eq [of md] by (simp add: strip4_eq)
  have getter: "md_contentType (withoutStorageFacts False md) = md_contentType md"
    using md_contentType_strip4 [of md] by (simp add: strip4_eq)
  show ?thesis
  proof (cases "isContainerPath (filePath link)")
    case True
    then show ?thesis
      unfolding writeMetadataFile_def
      by (simp add: bindE_cases mutate_def inspect_def returnE_def liftE_def onWorld_apply
            writeDataFile_def createWriteStream_def remove_def four five Let_def
          split: sum.splits prod.splits)
  next
    case False
    show ?thesis
    proof (cases "md_contentType md")
      case (Inl e)
      with False show ?thesis
        unfolding writeMetadataFile_def
        by (simp add: bindE_cases mutate_def inspect_def four getter)
    next
      case (Inr ct)
      with False show ?thesis
        unfolding writeMetadataFile_def
        by (simp add: bindE_cases mutate_def inspect_def returnE_def liftE_def onWorld_apply
              writeDataFile_def createWriteStream_def remove_def four five getter Let_def
            split: sum.splits prod.splits)
    qed
  qed
qed


lemma typeImpliedByKey_run:
  "(if isContainerPath (filePath link) then Inr True
    else map_sum id (\<lambda>ct. contentType link = ct) (md_contentType md)) = Inr d
   \<Longrightarrow> d = typeImpliedByKey link md"
  by (cases "md_contentType md") (auto simp: typeImpliedByKey_def split: if_splits)

lemma map_sum_Inr_iff:
  fixes x :: "error + unit"
  shows "(map_sum id f x = Inr b) = (x = Inr () \<and> b = f ())"
  by (cases x) auto

lemma writeMetadataFile_Inr:
  assumes "writeMetadataFile l acc link (md, w) = (Inr wrote, (md', w'))"
  shows "\<exists>metaLink.
           mapUrlToFilePath (resourceMapper acc) (identifier link) True None = Inr metaLink
         \<and> md' = withoutStorageFacts (typeImpliedByKey link md) md
         \<and> (wrote \<longleftrightarrow> md_quads md' \<noteq> [])
         \<and> (if wrote
              then put (filePath metaLink)
                     (serializeQuads l (md_quads md') (contentType metaLink)) w = (Inr (), w')
              else del (filePath metaLink) w = (Inr (), w'))"
proof -
  let ?d = "if isContainerPath (filePath link) then Inr True
            else map_sum id (\<lambda>ct. contentType link = ct) (md_contentType md)"
  from assms obtain d where d: "?d = Inr d"
    by (cases ?d) (simp_all add: writeMetadataFile_run)
  then have dt: "d = typeImpliedByKey link md"
    by (rule typeImpliedByKey_run)
  from assms d obtain metaLink where
    ml: "mapUrlToFilePath (resourceMapper acc) (identifier link) True None = Inr metaLink"
    by (cases "mapUrlToFilePath (resourceMapper acc) (identifier link) True None")
       (simp_all add: writeMetadataFile_run Let_def)
  from assms show ?thesis
    unfolding writeMetadataFile_run d ml dt [symmetric]
    by (auto simp: Let_def map_sum_Inr_iff split: if_splits prod.splits)
qed


lemma writeDocument_Inr:
  assumes "writeDocument l acc i data (md, w) = (Inr u, (md', w'))"
  shows "\<exists>ct link w0 wrote w1.
           md_contentType md = Inr ct
         \<and> mapUrlToFilePath (resourceMapper acc) i False ct = Inr link
         \<and> verifyExistingExtension acc link w = (Inr (), w0)
         \<and> writeMetadataFile l acc link (md, w0) = (Inr wrote, (md', w1))
         \<and> put (filePath link) data w1 = (Inr (), w')"
  using assms unfolding writeDocument_def
  by (auto simp: bindE_cases catchE_def inspect_def liftE_def onWorld_apply throwE_def
        writeDataFile_def createWriteStream_def
      split: sum.splits prod.splits if_splits)

lemma writeContainer_Inr:
  assumes "writeContainer l acc i (md, w) = (Inr u, (md', w'))"
  shows "\<exists>link w0 wrote.
           mapUrlToFilePath (resourceMapper acc) i False None = Inr link
         \<and> ensureDir (filePath link) w = (Inr (), w0)
         \<and> writeMetadataFile l acc link (md, w0) = (Inr wrote, (md', w'))"
  using assms unfolding writeContainer_def
  by (auto simp: bindE_cases liftE_def onWorld_apply returnE_def
      split: sum.splits prod.splits if_splits)

lemma writeMetadata_Inr:
  assumes "writeMetadata l acc i (md, w) = (Inr u, (md', w'))"
  shows "\<exists>link wrote.
           mapUrlToFilePath (resourceMapper acc) i True None = Inr link
         \<and> writeMetadataFile l acc link (md, w) = (Inr wrote, (md', w'))"
  using assms unfolding writeMetadata_def
  by (auto simp: bindE_cases liftE_def returnE_def
      split: sum.splits prod.splits if_splits)


subsection \<open>What a sidecar holds\<close>

lemma writeMetadataFile_Inr_md:
  assumes "writeMetadataFile l acc link (md, w) = (Inr wrote, (md', w'))"
  shows "md' = withoutStorageFacts (typeImpliedByKey link md) md"
  using writeMetadataFile_Inr [OF assms] by (elim exE conjE)

lemma map_of_put:
  assumes "put k body w = (Inr u, w')"
  shows "map_of (blobs w') = (map_of (blobs w))(k \<mapsto> \<lparr>content = body, stamp = now w\<rparr>)"
  using put_Inr [OF assms] by (simp add: update_conv')

lemma map_of_del:
  assumes "del k w = (Inr u, w')"
  shows "map_of (blobs w') = (map_of (blobs w))(k := None)"
  using del_Inr [OF assms] by (simp add: delete_conv')

lemma sidecar_after_writeMetadataFile:
  assumes run: "writeMetadataFile l acc link (md, w) = (Inr wrote, (md', w'))"
      and ml: "mapUrlToFilePath (resourceMapper acc) (identifier link) True None = Inr metaLink"
      and fmt: "contentType metaLink = None"
  shows "sidecarHolds l w' (filePath metaLink) md'"
proof -
  from writeMetadataFile_Inr [OF run] ml
  have w: "wrote \<longleftrightarrow> md_quads md' \<noteq> []"
    and step: "if wrote
         then put (filePath metaLink) (serializeQuads l (md_quads md') (contentType metaLink)) w
                = (Inr (), w')
         else del (filePath metaLink) w = (Inr (), w')"
    by auto
  show ?thesis
  proof (cases wrote)
    case True
    with step have "put (filePath metaLink) (serializeQuads l (md_quads md') None) w = (Inr (), w')"
      by (simp add: fmt)
    from map_of_put [OF this] True w show ?thesis
      by (simp add: sidecarHolds_def)
  next
    case False
    with step have "del (filePath metaLink) w = (Inr (), w')" by simp
    from map_of_del [OF this] False w show ?thesis
      by (simp add: sidecarHolds_def exists_key_def)
  qed
qed

lemma sidecarHolds_cong:
  "map_of (blobs w') key = map_of (blobs w) key \<Longrightarrow> sidecarHolds l w' key m = sidecarHolds l w key m"
  by (simp add: sidecarHolds_def exists_key_def)

lemma writeDocument_fim_Inr:
  assumes pathname: "urlPathname l (path i) = Some c"
      and run: "writeDocument l (VercelBlobDataAccessor l m) i data (md, w) = (Inr u, (md', w'))"
  shows "\<exists>ct wrote w1.
           md_contentType md = Inr ct
         \<and> writeMetadataFile l (VercelBlobDataAccessor l m)
               \<lparr>identifier = i, filePath = ''x'' @ c, contentType = None, isMetadata = False\<rparr>
               (md, w) = (Inr wrote, (md', w1))
         \<and> put (''x'' @ c) data w1 = (Inr (), w')"
proof -
  let ?acc = "VercelBlobDataAccessor l m"
  let ?link = "\<lparr>identifier = i, filePath = ''x'' @ c, contentType = None, isMetadata = False\<rparr>"
  have link: "\<And>ct. mapUrlToFilePath (resourceMapper ?acc) i False ct = Inr ?link"
    using pathname by (simp add: fim_map)
  from writeDocument_Inr [OF run] obtain ct lk w0 wrote w1 where
        g: "md_contentType md = Inr ct"
    and a: "mapUrlToFilePath (resourceMapper ?acc) i False ct = Inr lk"
    and v: "verifyExistingExtension ?acc lk w = (Inr (), w0)"
    and f: "writeMetadataFile l ?acc lk (md, w0) = (Inr wrote, (md', w1))"
    and p: "put (filePath lk) data w1 = (Inr (), w')"
    by blast
  from a link have lk: "lk = ?link" by simp
  from v a have "w0 = w" by (simp add: verifyExistingExtension_fim)
  with g f p lk show ?thesis by auto
qed

lemma writeContainer_fim_Inr:
  assumes pathname: "urlPathname l (path i) = Some c"
      and run: "writeContainer l (VercelBlobDataAccessor l m) i (md, w) = (Inr u, (md', w'))"
  shows "\<exists>wrote w0.
           ensureDir (''x'' @ c) w = (Inr (), w0)
         \<and> writeMetadataFile l (VercelBlobDataAccessor l m)
               \<lparr>identifier = i, filePath = ''x'' @ c, contentType = None, isMetadata = False\<rparr>
               (md, w0) = (Inr wrote, (md', w'))"
proof -
  let ?acc = "VercelBlobDataAccessor l m"
  let ?link = "\<lparr>identifier = i, filePath = ''x'' @ c, contentType = None, isMetadata = False\<rparr>"
  have link: "\<And>ct. mapUrlToFilePath (resourceMapper ?acc) i False ct = Inr ?link"
    using pathname by (simp add: fim_map)
  from writeContainer_Inr [OF run] obtain lk w0 wrote where
        a: "mapUrlToFilePath (resourceMapper ?acc) i False None = Inr lk"
    and e: "ensureDir (filePath lk) w = (Inr (), w0)"
    and f: "writeMetadataFile l ?acc lk (md, w0) = (Inr wrote, (md', w'))"
    by blast
  from a link have lk: "lk = ?link" by simp
  with e f show ?thesis by auto
qed

lemma writeMetadata_fim_Inr:
  assumes pathname: "urlPathname l (path i) = Some c"
      and run: "writeMetadata l (VercelBlobDataAccessor l m) i (md, w) = (Inr u, (md', w'))"
  shows "\<exists>wrote.
           writeMetadataFile l (VercelBlobDataAccessor l m)
               \<lparr>identifier = i, filePath = ''x'' @ c @ ''.meta'', contentType = None, isMetadata = True\<rparr>
               (md, w) = (Inr wrote, (md', w'))"
proof -
  let ?acc = "VercelBlobDataAccessor l m"
  let ?meta = "\<lparr>identifier = i, filePath = ''x'' @ c @ ''.meta'', contentType = None, isMetadata = True\<rparr>"
  have meta: "\<And>ct. mapUrlToFilePath (resourceMapper ?acc) i True ct = Inr ?meta"
    using pathname by (simp add: fim_map)
  from writeMetadata_Inr [OF run] obtain lk wrote where
        a: "mapUrlToFilePath (resourceMapper ?acc) i True None = Inr lk"
    and f: "writeMetadataFile l ?acc lk (md, w) = (Inr wrote, (md', w'))"
    by blast
  from a meta have lk: "lk = ?meta" by simp
  with f show ?thesis by auto
qed

text \<open>
  C8, as amended. After a write operation of the accessor returns, the metadata object
  is the input without its subject's LDP Resource, Container and BasicContainer types,
  without its \<open>dc:modified\<close> values and, when the key is a container's or the
  metadata carry no content-type (the hardcoded mapper's links imply none), without
  its content-type; every other quad stays, quads with the predicates \<open>posix:mtime\<close>
  and \<open>posix:size\<close> and quads about other subjects included. The sidecar key then
  holds the serialization of exactly these quads, and holds nothing when no quad is
  left.
\<close>

theorem sidecar_holds_filtered_metadata:
  assumes pathname: "urlPathname l (path i) = Some c"
  shows
   "(\<forall>md' w'. writeDocument l (VercelBlobDataAccessor l m) i data (md, w) = (Inr (), (md', w')) \<longrightarrow>
       md' = withoutStorageFacts (isContainerPath (''x'' @ c) \<or> md_contentType md = Inr None) md
       \<and> sidecarHolds l w' (''x'' @ c @ ''.meta'') md')
    \<and> (\<forall>md' w'. writeContainer l (VercelBlobDataAccessor l m) i (md, w) = (Inr (), (md', w')) \<longrightarrow>
       md' = withoutStorageFacts (isContainerPath (''x'' @ c) \<or> md_contentType md = Inr None) md
       \<and> sidecarHolds l w' (''x'' @ c @ ''.meta'') md')
    \<and> (\<forall>md' w'. writeMetadata l (VercelBlobDataAccessor l m) i (md, w) = (Inr (), (md', w')) \<longrightarrow>
       md' = withoutStorageFacts (md_contentType md = Inr None) md
       \<and> sidecarHolds l w' (''x'' @ c @ ''.meta'') md')"
proof (intro conjI impI allI)
  let ?acc = "VercelBlobDataAccessor l m"
  let ?link = "\<lparr>identifier = i, filePath = ''x'' @ c, contentType = None, isMetadata = False\<rparr>"
  let ?meta = "\<lparr>identifier = i, filePath = ''x'' @ c @ ''.meta'', contentType = None, isMetadata = True\<rparr>"
  have meta: "mapUrlToFilePath (resourceMapper ?acc) (identifier ?link) True None = Inr ?meta"
             "mapUrlToFilePath (resourceMapper ?acc) (identifier ?meta) True None = Inr ?meta"
    using pathname by (simp_all add: fim_map)
  have fmt: "contentType ?meta = None" by simp
  have tl: "typeImpliedByKey ?link md = (isContainerPath (''x'' @ c) \<or> md_contentType md = Inr None)"
    by (simp add: typeImpliedByKey_def)
  have tm: "typeImpliedByKey ?meta md = (md_contentType md = Inr None)"
    by (simp add: typeImpliedByKey_def isContainerPath_def endsWith_def suffix_def)
  {
    fix md' w'
    assume "writeDocument l ?acc i data (md, w) = (Inr (), (md', w'))"
    from writeDocument_fim_Inr [OF pathname this] obtain wrote w1 where
      f: "writeMetadataFile l ?acc ?link (md, w) = (Inr wrote, (md', w1))"
      and p: "put (''x'' @ c) data w1 = (Inr (), w')"
      by blast
    have "md' = withoutStorageFacts (typeImpliedByKey ?link md) md"
      by (rule writeMetadataFile_Inr_md [OF f])
    then show "md' = withoutStorageFacts (isContainerPath (''x'' @ c) \<or> md_contentType md = Inr None) md"
      unfolding tl .
    have "sidecarHolds l w1 (filePath ?meta) md'"
      by (rule sidecar_after_writeMetadataFile [OF f meta(1) fmt])
    then have before: "sidecarHolds l w1 (''x'' @ c @ ''.meta'') md'"
      by simp
    have "map_of (blobs w') (''x'' @ c @ ''.meta'') = map_of (blobs w1) (''x'' @ c @ ''.meta'')"
      using map_of_put [OF p] by simp
    then have "sidecarHolds l w' (''x'' @ c @ ''.meta'') md' = sidecarHolds l w1 (''x'' @ c @ ''.meta'') md'"
      by (rule sidecarHolds_cong)
    with before show "sidecarHolds l w' (''x'' @ c @ ''.meta'') md'"
      by blast
  }
  {
    fix md' w'
    assume "writeContainer l ?acc i (md, w) = (Inr (), (md', w'))"
    from writeContainer_fim_Inr [OF pathname this] obtain wrote w0 where
      f: "writeMetadataFile l ?acc ?link (md, w0) = (Inr wrote, (md', w'))"
      by blast
    have "md' = withoutStorageFacts (typeImpliedByKey ?link md) md"
      by (rule writeMetadataFile_Inr_md [OF f])
    then show "md' = withoutStorageFacts (isContainerPath (''x'' @ c) \<or> md_contentType md = Inr None) md"
      unfolding tl .
    have "sidecarHolds l w' (filePath ?meta) md'"
      by (rule sidecar_after_writeMetadataFile [OF f meta(1) fmt])
    then show "sidecarHolds l w' (''x'' @ c @ ''.meta'') md'" by simp
  }
  {
    fix md' w'
    assume "writeMetadata l ?acc i (md, w) = (Inr (), (md', w'))"
    from writeMetadata_fim_Inr [OF pathname this] obtain wrote where
      f: "writeMetadataFile l ?acc ?meta (md, w) = (Inr wrote, (md', w'))"
      by blast
    have "md' = withoutStorageFacts (typeImpliedByKey ?meta md) md"
      by (rule writeMetadataFile_Inr_md [OF f])
    then show "md' = withoutStorageFacts (md_contentType md = Inr None) md"
      unfolding tm .
    have "sidecarHolds l w' (filePath ?meta) md'"
      by (rule sidecar_after_writeMetadataFile [OF f meta(2) fmt])
    then show "sidecarHolds l w' (''x'' @ c @ ''.meta'') md'" by simp
  }
qed
theorem sidecar_holds_filtered_metadata_witness:
  "urlPathname demo_lib (path demo_id) = Some ''/docs/a''
   \<and> writeDocument demo_lib demo_acc demo_id ''hello'' (demo_md_kind, calm [])
     = (Inr (), (demo_md, calm [(''x/docs/a.meta'', blob (demo_serialize [demo_type_quad] None) 5),
                               (''x/docs/a'', blob ''hello'' 5)]))
   \<and> sidecarHolds demo_lib (calm [(''x/docs/a.meta'', blob (demo_serialize [demo_type_quad] None) 5),
                                   (''x/docs/a'', blob ''hello'' 5)]) ''x/docs/a.meta'' demo_md
   \<and> writeContainer demo_lib demo_acc demo_id (demo_md_kind, calm [(''x/docs/a'', blob ''hello'' 5)])
     = (Inr (), (demo_md, calm [(''x/docs/a'', blob ''hello'' 5),
                               (''x/docs/a.meta'', blob (demo_serialize [demo_type_quad] None) 5)]))
   \<and> sidecarHolds demo_lib (calm [(''x/docs/a'', blob ''hello'' 5),
                                   (''x/docs/a.meta'', blob (demo_serialize [demo_type_quad] None) 5)])
         ''x/docs/a.meta'' demo_md
   \<and> writeMetadata demo_lib demo_acc demo_id
         (demo_md_only_kind, calm [(''x/docs/a.meta'', blob ''stale'' 1)])
     = (Inr (), (demo_md_empty, calm []))
   \<and> sidecarHolds demo_lib (calm []) ''x/docs/a.meta'' demo_md_empty
   \<and> \<not> exists_key (calm []) ''x/docs/a.meta''"
proof -
  let ?acc = "VercelBlobDataAccessor demo_lib (fim demo_lib)"
  have p: "urlPathname demo_lib (path demo_id) = Some ''/docs/a''"
    by code_simp
  have d: "writeDocument demo_lib ?acc demo_id ''hello'' (demo_md_kind, calm [])
     = (Inr (), (demo_md, calm [(''x/docs/a.meta'', blob (demo_serialize [demo_type_quad] None) 5),
                               (''x/docs/a'', blob ''hello'' 5)]))"
    by code_simp
  have c: "writeContainer demo_lib ?acc demo_id (demo_md_kind, calm [(''x/docs/a'', blob ''hello'' 5)])
     = (Inr (), (demo_md, calm [(''x/docs/a'', blob ''hello'' 5),
                               (''x/docs/a.meta'', blob (demo_serialize [demo_type_quad] None) 5)]))"
    by code_simp
  have m: "writeMetadata demo_lib ?acc demo_id
         (demo_md_only_kind, calm [(''x/docs/a.meta'', blob ''stale'' 1)])
     = (Inr (), (demo_md_empty, calm []))"
    by code_simp
  from sidecar_holds_filtered_metadata [OF p, of "fim demo_lib" "''hello''" demo_md_kind "calm []"] d
  have sd: "sidecarHolds demo_lib (calm [(''x/docs/a.meta'', blob (demo_serialize [demo_type_quad] None) 5),
                                   (''x/docs/a'', blob ''hello'' 5)]) (''x'' @ ''/docs/a'' @ ''.meta'') demo_md"
    by blast
  from sidecar_holds_filtered_metadata [OF p, of "fim demo_lib" "''hello''" demo_md_kind
         "calm [(''x/docs/a'', blob ''hello'' 5)]"] c
  have sc: "sidecarHolds demo_lib (calm [(''x/docs/a'', blob ''hello'' 5),
                                   (''x/docs/a.meta'', blob (demo_serialize [demo_type_quad] None) 5)])
         (''x'' @ ''/docs/a'' @ ''.meta'') demo_md"
    by blast
  from sidecar_holds_filtered_metadata [OF p, of "fim demo_lib" "''hello''" demo_md_only_kind
         "calm [(''x/docs/a.meta'', blob ''stale'' 1)]"] m
  have sm: "sidecarHolds demo_lib (calm []) (''x'' @ ''/docs/a'' @ ''.meta'') demo_md_empty"
    by blast
  have gone: "\<not> exists_key (calm []) ''x/docs/a.meta''"
    by code_simp
  from p d c m sd sc sm gone show ?thesis
    by (simp add: demo_acc_def)
qed

text \<open>
  The claim as stated fails on a posix fact: metadata stating the size of the document
  (the quad \<^verbatim>\<open>addPosixMetadata\<close> adds on a read) is stored in the sidecar as given.
\<close>

theorem sidecar_keeps_posix_size_counterexample:
  "restatesStorageFact demo_md_size demo_size_quad = False
   \<and> subject demo_size_quad = ident demo_md_size
   \<and> predicate demo_size_quad = POSIX_size
   \<and> writeMetadata demo_lib demo_acc demo_id (demo_md_size, calm [])
     = (Inr (), (demo_md_size,
          calm [(''x/docs/a.meta'',
                 blob (serializeQuads demo_lib [demo_size_quad] None) 5)]))
   \<and> serializeQuads demo_lib [demo_size_quad] None
     = ''http://h/docs/a http://www.w3.org/ns/posix/stat#size 5 .''"
  by code_simp

subsection \<open>Writing a document again with another content-type\<close>

lemma verifyExistingExtension_differ:
  assumes "mapUrlToFilePath (resourceMapper acc) (identifier link) False None = Inr oldLink"
      and "filePath oldLink \<noteq> filePath link"
  shows "verifyExistingExtension acc link = remove (filePath oldLink)"
  using assms by (simp add: verifyExistingExtension_def bindE_def liftE_def)




subsection \<open>A store that answers\<close>

lemma head_calm:
  "faults w = [] \<Longrightarrow>
   head k w = (case map_of (blobs w) k of
                 None \<Rightarrow> (Inl BlobNotFoundError, w)
               | Some b \<Rightarrow> (Inr (describe k b), w))"
  by (simp add: head_def call_calm)

lemma del_calm:
  "faults w = [] \<Longrightarrow> del k w = (Inr (), w\<lparr>blobs := AList.delete k (blobs w)\<rparr>)"
  by (simp add: del_def call_calm)

lemma fetch_calm:
  "faults w = [] \<Longrightarrow>
   fetch k w = (case map_of (blobs w) k of
                 None \<Rightarrow> (Inl (TypeError ''fetch failed''), w)
               | Some b \<Rightarrow> (Inr (content b), w))"
  by (simp add: fetch_def call_calm)

lemma isENOENT_simps [simp]:
  "isENOENT (Error ''ENOENT'')" "\<not> isENOENT NotFoundHttpError"
  "\<not> isENOENT BlobNotFoundError" "\<not> isENOENT (BlobError m)"
  by (simp_all add: isENOENT_def)

lemma getStats_calm:
  "faults w = [] \<Longrightarrow>
   getStats p w =
     (if endsWith p ''/'' then
        (case map_of (blobs w) (p @ FOLDER_MARKER) of
           None \<Rightarrow> (Inl NotFoundHttpError, w)
         | Some b \<Rightarrow> (Inr \<lparr>isFile = False, isDirectory = True, mtime = stamp b, stat_size = 0\<rparr>, w))
      else
        (case map_of (blobs w) p of
           None \<Rightarrow> (Inl NotFoundHttpError, w)
         | Some b \<Rightarrow> (Inr \<lparr>isFile = True, isDirectory = False, mtime = stamp b,
                           stat_size = length (content b)\<rparr>, w)))"
  by (simp add: getStats_def stat_def catchE_def bindE_cases head_calm returnE_def throwE_def
        describe_def split: option.splits)

subsection \<open>Deleting a resource\<close>

lemma marker_not_meta: "FOLDER_MARKER \<noteq> ''.meta''"
  by (simp add: FOLDER_MARKER_def)

text \<open>
  C5. While the store answers every call, \<^verbatim>\<open>deleteResource\<close> first removes the
  sidecar key, whether or not it held anything. It then succeeds, removing the primary
  key, exactly when the primary key is of the identifier's kind: for a document
  identifier a document key that holds an object, for a container identifier a
  container key whose folder marker exists. Otherwise it fails with
  \<open>NotFoundHttpError\<close>. Where neither sidecar, primary object nor marker exists, it
  fails with \<open>NotFoundHttpError\<close> and leaves the store as it was, so a second call
  fails in the same way.
\<close>

theorem deleteResource_kinds:
  assumes pathname: "urlPathname l (path i) = Some c"
      and quiet: "faults w = []"
  shows "deleteResource (VercelBlobDataAccessor l m) i w =
           (let w1 = w\<lparr>blobs := AList.delete (''x'' @ c @ ''.meta'') (blobs w)\<rparr> in
            if (if isContainerIdentifier i
                then isContainerPath (''x'' @ c) \<and> exists_key w (''x'' @ c @ FOLDER_MARKER)
                else \<not> isContainerPath (''x'' @ c) \<and> exists_key w (''x'' @ c))
            then (Inr (), w1\<lparr>blobs := AList.delete (''x'' @ c) (blobs w1)\<rparr>)
            else (Inl NotFoundHttpError, w1))
         \<and> (\<not> exists_key w (''x'' @ c @ ''.meta'') \<and> \<not> exists_key w (''x'' @ c)
              \<and> \<not> exists_key w (''x'' @ c @ FOLDER_MARKER) \<longrightarrow>
              deleteResource (VercelBlobDataAccessor l m) i w = (Inl NotFoundHttpError, w)
              \<and> deleteResource (VercelBlobDataAccessor l m) i
                    (snd (deleteResource (VercelBlobDataAccessor l m) i w))
                  = (Inl NotFoundHttpError, w))"
proof -
  let ?acc = "VercelBlobDataAccessor l m"
  let ?w1 = "w\<lparr>blobs := AList.delete (''x'' @ c @ ''.meta'') (blobs w)\<rparr>"
  have q1: "faults ?w1 = []" using quiet by simp
  have key: "map_of (blobs ?w1) (''x'' @ c) = map_of (blobs w) (''x'' @ c)"
    by (simp add: delete_conv')
  have marker: "map_of (blobs ?w1) (''x'' @ c @ FOLDER_MARKER) = map_of (blobs w) (''x'' @ c @ FOLDER_MARKER)"
    by (simp add: delete_conv' marker_not_meta)
  have first: "deleteResource ?acc i w =
           (let w1 = ?w1 in
            if (if isContainerIdentifier i
                then isContainerPath (''x'' @ c) \<and> exists_key w (''x'' @ c @ FOLDER_MARKER)
                else \<not> isContainerPath (''x'' @ c) \<and> exists_key w (''x'' @ c))
            then (Inr (), w1\<lparr>blobs := AList.delete (''x'' @ c) (blobs w1)\<rparr>)
            else (Inl NotFoundHttpError, w1))"
    unfolding deleteResource_def
    using pathname quiet key marker
    by (simp add: fim_map bindE_cases liftE_def remove_def del_calm getStats_calm
          isContainerPath_def exists_key_def throwE_def Let_def
        split: option.splits)
  have second: "deleteResource ?acc i w = (Inl NotFoundHttpError, w)"
    if "\<not> exists_key w (''x'' @ c @ ''.meta'')" "\<not> exists_key w (''x'' @ c)"
       "\<not> exists_key w (''x'' @ c @ FOLDER_MARKER)"
  proof -
    from that(1) have "CHR ''x'' # c @ ''.meta'' \<notin> fst ` set (blobs w)"
      by (simp add: exists_key_def map_of_eq_None_iff)
    then have "?w1 = w" by simp
    with first that show ?thesis by (simp add: Let_def)
  qed
  from first second show ?thesis by simp
qed


theorem deleteResource_kinds_witness:
  "urlPathname demo_lib (path demo_id) = Some ''/docs/a''
   \<and> faults (calm []) = []
   \<and> \<not> exists_key (calm []) ''x/docs/a.meta''
   \<and> \<not> exists_key (calm []) ''x/docs/a''
   \<and> \<not> exists_key (calm []) (''x/docs/a'' @ FOLDER_MARKER)
   \<and> deleteResource demo_acc demo_id (calm []) = (Inl NotFoundHttpError, calm [])
   \<and> deleteResource demo_acc demo_id (snd (deleteResource demo_acc demo_id (calm [])))
       = (Inl NotFoundHttpError, calm [])
   \<and> deleteResource demo_acc demo_id
         (calm [(''x/docs/a.meta'', blob ''meta'' 1), (''x/docs/a'', blob ''hello'' 2)])
       = (Inr (), calm [])"
proof -
  have p: "urlPathname demo_lib (path demo_id) = Some ''/docs/a''"
    by code_simp
  have q: "faults (calm []) = []"
    by code_simp
  have a1: "\<not> exists_key (calm []) (''x'' @ ''/docs/a'' @ ''.meta'')"
    by code_simp
  have a2: "\<not> exists_key (calm []) (''x'' @ ''/docs/a'')"
    by code_simp
  have a3: "\<not> exists_key (calm []) (''x'' @ ''/docs/a'' @ FOLDER_MARKER)"
    by code_simp
  have ok: "deleteResource demo_acc demo_id
         (calm [(''x/docs/a.meta'', blob ''meta'' 1), (''x/docs/a'', blob ''hello'' 2)])
       = (Inr (), calm [])"
    by code_simp
  from deleteResource_kinds [OF p q, of "fim demo_lib"] a1 a2 a3
  have "deleteResource (VercelBlobDataAccessor demo_lib (fim demo_lib)) demo_id (calm [])
          = (Inl NotFoundHttpError, calm [])
        \<and> deleteResource (VercelBlobDataAccessor demo_lib (fim demo_lib)) demo_id
             (snd (deleteResource (VercelBlobDataAccessor demo_lib (fim demo_lib)) demo_id (calm [])))
          = (Inl NotFoundHttpError, calm [])"
    by blast
  with p q a1 a2 a3 ok show ?thesis
    by (simp add: demo_acc_def)
qed

subsection \<open>Children by prefix listing\<close>

lemma list_blobs_calm:
  "faults w = [] \<Longrightarrow>
   list_blobs pfx w = (Inr (map (\<lambda>(k, b). describe k b)
                             (filter (\<lambda>(k, b). startsWith k pfx) (blobs w))), w)"
  by (simp add: list_blobs_def call_calm)

lemma indexOf_None: "indexOf s c = None \<longleftrightarrow> c \<notin> set s"
  by (induction s) auto

lemma indexOf_Some: "indexOf s c = Some n \<Longrightarrow> take (n + 1) s = takeWhile (\<lambda>x. x \<noteq> c) s @ [c]"
  by (induction s arbitrary: n) (auto split: if_splits)

lemma childOf_directChild: "childOf pfx b = directChild (drop (length pfx) (pathname b))"
proof (cases "indexOf (drop (length pfx) (pathname b)) (CHR ''/'')")
  case None
  then show ?thesis
    using indexOf_None [of "drop (length pfx) (pathname b)" "CHR ''/''"]
    by (simp add: childOf_def directChild_def Let_def)
next
  case (Some n)
  then have "CHR ''/'' \<in> set (drop (length pfx) (pathname b))"
    using indexOf_None [of "drop (length pfx) (pathname b)" "CHR ''/''"] by simp
  with Some indexOf_Some [OF Some] show ?thesis
    by (simp add: childOf_def directChild_def Let_def)
qed

lemma getChildren_not_implemented:
  "mapUrlToFilePath (resourceMapper acc) i False None = Inr link \<Longrightarrow>
   getChildren l acc i w = (Inl (Error ''Not implemented''), w)"
  by (simp add: getChildren_def getChildMetadata_def opendir_def bindE_cases liftE_def throwE_def)

text \<open>
  What the prefix-listing draft computes while the store answers: one record per
  listed key, in the order of the listing, named by the key's suffix after the prefix
  when that holds no separator and by its first segment and separator otherwise.
  Nothing is left out and nothing is merged.
\<close>

lemma getChildren_listing_entries:
  assumes resolved: "mapUrlToFilePath (resourceMapper acc) i False None = Inr link"
      and quiet: "faults w = []"
  shows "getChildren_listing acc i w =
           (Inr (map (\<lambda>k. md_new \<lparr>path = directChild (drop (length (drop 1 (filePath link))) k)\<rparr>)
                     (filter (\<lambda>k. startsWith k (drop 1 (filePath link))) (map fst (blobs w)))),
            w)"
proof -
  define pfx where "pfx = drop 1 (filePath link)"
  have names: "map (\<lambda>p. md_new \<lparr>path = p\<rparr>)
                 (map (childOf pfx) (map (\<lambda>(k, b). describe k b)
                    (filter (\<lambda>(k, b). startsWith k pfx) bs)))
        = map (\<lambda>k. md_new \<lparr>path = directChild (drop (length pfx) k)\<rparr>)
              (filter (\<lambda>k. startsWith k pfx) (map fst bs))"
    for bs :: "(string \<times> stored) list"
    by (induction bs) (auto simp: childOf_directChild describe_def)
  have "getChildren_listing acc i w =
          (Inr (map (\<lambda>p. md_new \<lparr>path = p\<rparr>)
                 (map (childOf pfx) (map (\<lambda>(k, b). describe k b)
                    (filter (\<lambda>(k, b). startsWith k pfx) (blobs w))))), w)"
    unfolding getChildren_listing_def getBlobIdentifier_def pfx_def
    using resolved quiet
    by (simp add: bindE_cases liftE_def returnE_def list_blobs_calm)
  then show ?thesis
    unfolding names unfolding pfx_def .
qed

text \<open>
  C4. On the specification's example, the keys \<open>docs/a.txt\<close>, \<open>docs/sub/b.txt\<close> and
  \<open>docs/sub/c.txt\<close>, \<^verbatim>\<open>getChildren\<close> of the prefix-listing draft yields three
  records, \<open>sub/\<close> twice, where the claim has the two records \<open>a.txt\<close> and \<open>sub/\<close>;
  with the sidecar key \<open>docs/a.txt.meta\<close> in the store it also yields a record for the
  sidecar, which the claim has hidden. \<^verbatim>\<open>getChildMetadata\<close> of VercelBlobDataAccessor.ts
  skips metadata files and yields one record per directory entry, but its
  \<^verbatim>\<open>opendir\<close> throws (\<open>getChildren_not_implemented\<close>).
\<close>

theorem getChildren_listing_spec_example:
  "getChildren_listing demo_blob_acc demo_dir
       (calm [(''docs/a.txt'', blob ''hello'' 1), (''docs/sub/b.txt'', blob ''b'' 2),
              (''docs/sub/c.txt'', blob ''c'' 3)])
     = (Inr [md_new \<lparr>path = ''a.txt''\<rparr>, md_new \<lparr>path = ''sub/''\<rparr>, md_new \<lparr>path = ''sub/''\<rparr>],
        calm [(''docs/a.txt'', blob ''hello'' 1), (''docs/sub/b.txt'', blob ''b'' 2),
              (''docs/sub/c.txt'', blob ''c'' 3)])
   \<and> getChildren_listing demo_blob_acc demo_dir (calm demo_docs)
     = (Inr [md_new \<lparr>path = ''a.txt''\<rparr>, md_new \<lparr>path = ''a.txt.meta''\<rparr>,
             md_new \<lparr>path = ''sub/''\<rparr>, md_new \<lparr>path = ''sub/''\<rparr>], calm demo_docs)
   \<and> getChildren demo_lib demo_acc demo_dir
       (calm [(''x/docs/a.txt'', blob ''hello'' 1), (''x/docs/sub/b.txt'', blob ''b'' 2),
              (''x/docs/sub/c.txt'', blob ''c'' 3)])
     = (Inl (Error ''Not implemented''),
        calm [(''x/docs/a.txt'', blob ''hello'' 1), (''x/docs/sub/b.txt'', blob ''b'' 2),
              (''x/docs/sub/c.txt'', blob ''c'' 3)])"
  by code_simp

subsection \<open>Stat of a container, and store errors\<close>

lemma getStats_container_marker:
  assumes "faults w = []" and "endsWith p ''/''"
  shows "getStats p w =
           (if exists_key w (p @ FOLDER_MARKER)
            then (Inr \<lparr>isFile = False, isDirectory = True,
                       mtime = stamp (the (map_of (blobs w) (p @ FOLDER_MARKER))), stat_size = 0\<rparr>, w)
            else (Inl NotFoundHttpError, w))"
  using assms by (auto simp: getStats_calm exists_key_def split: option.splits)

lemma stat_listing_container:
  assumes "faults w = []" and "endsWith p ''/''"
  shows "stat_listing p w = (Inr \<lparr>isFile = False, isDirectory = True, mtime = now w, stat_size = 0\<rparr>, w)"
  using assms
  by (simp add: stat_listing_def catchE_def bindE_cases list_blobs_calm currentDate_def returnE_def)


text \<open>
  C6. A container key should stat as a directory exactly when something is stored for
  it. The stat of VercelApi.ts does so for the folder marker (\<open>getStats_container_marker\<close>).
  The stat of the prefix-listing draft lists the prefix and ignores the answer: for the
  prefix \<open>docs/\<close> of an empty store it reports a directory, where the claim asks
  for \<open>NotFound\<close>.
\<close>

theorem stat_listing_empty_prefix:
  "stat_listing ''docs/'' (calm [])
     = (Inr \<lparr>isFile = False, isDirectory = True, mtime = 5, stat_size = 0\<rparr>, calm [])
   \<and> getStats_listing ''docs/'' (calm [])
     = (Inr \<lparr>isFile = False, isDirectory = True, mtime = 5, stat_size = 0\<rparr>, calm [])
   \<and> list_blobs ''docs/'' (calm []) = (Inr [], calm [])"
  by code_simp

lemma getStats_fault:
  "faults w = Some reason # fs \<Longrightarrow>
   getStats p w = (Inl NotFoundHttpError, w\<lparr>faults := fs\<rparr>)"
  by (simp add: getStats_def stat_def catchE_def bindE_cases head_def call_def throwE_def)

text \<open>
  C7. An error of the store other than a missing key should reach the caller unchanged.
  \<^verbatim>\<open>stat\<close> turns every failure of \<^verbatim>\<open>head\<close> into \<^verbatim>\<open>Error("ENOENT")\<close>, so
  \<^verbatim>\<open>getStats\<close> reports \<open>NotFoundHttpError\<close> for an object that exists when the
  store times out, and \<^verbatim>\<open>getData\<close> with it (for any key and any failure:
  \<open>getStats_fault\<close>).
\<close>

theorem getStats_outage_reported_as_NotFound:
  "head ''x/docs/a'' \<lparr>blobs = [(''x/docs/a'', blob ''hello'' 1)], now = 5, faults = [Some ''network timeout'']\<rparr>
     = (Inl (BlobError ''network timeout''), calm [(''x/docs/a'', blob ''hello'' 1)])
   \<and> getStats ''x/docs/a'' \<lparr>blobs = [(''x/docs/a'', blob ''hello'' 1)], now = 5, faults = [Some ''network timeout'']\<rparr>
     = (Inl NotFoundHttpError, calm [(''x/docs/a'', blob ''hello'' 1)])
   \<and> getData demo_acc demo_id \<lparr>blobs = [(''x/docs/a'', blob ''hello'' 1)], now = 5, faults = [Some ''network timeout'']\<rparr>
     = (Inl NotFoundHttpError, calm [(''x/docs/a'', blob ''hello'' 1)])"
  by code_simp


subsection \<open>Round trip of a document\<close>

lemma ident_md_ops [simp]:
  "ident (md_addQuad q m) = ident m"
  "ident (md_add p ob g m) = ident m"
  "ident (md_removeAll p m) = ident m"
  "ident (md_remove p ob m) = ident m"
  "ident (md_set p t m) = ident m"
  by (simp_all add: md_addQuad_def md_add_def md_removeAll_def md_remove_def md_set_def
        split: option.splits)

lemma md_getAll_add_other:
  "p' \<noteq> p \<Longrightarrow> md_getAll p (md_add p' ob g m) = md_getAll p m"
  by (simp add: md_getAll_def md_add_def md_addQuad_def)

lemma md_getAll_removeAll_other:
  "p' \<noteq> p \<Longrightarrow> md_getAll p (md_removeAll p' m) = md_getAll p m"
  by (auto simp: md_getAll_def md_removeAll_def intro!: arg_cong [where f = "map object"] filter_cong)

lemma md_getAll_removeAll_same: "md_getAll p (md_removeAll p m) = []"
  by (auto simp: md_getAll_def md_removeAll_def filter_empty_conv)

lemma md_getAll_set_other:
  "p' \<noteq> p \<Longrightarrow> md_getAll p (md_set p' t m) = md_getAll p m"
  by (simp add: md_set_def md_getAll_add_other md_getAll_removeAll_other split: option.splits)

lemma md_getAll_set_same: "md_getAll p (md_set p (Some t) m) = [t]"
proof -
  let ?m = "md_removeAll p m"
  let ?q = "\<lparr>subject = ident m, predicate = p, object = t, graph = DefaultGraph\<rparr>"
  have none: "filter (\<lambda>q. subject q = ident m \<and> predicate q = p) (store ?m) = []"
    by (auto simp: md_removeAll_def filter_empty_conv)
  then have "?q \<notin> set (store ?m)"
    by (auto simp: filter_empty_conv)
  then have "store (md_add p t DefaultGraph ?m) = store ?m @ [?q]"
    by (simp add: md_add_def md_addQuad_def)
  with none show ?thesis
    by (simp add: md_set_def md_getAll_def)
qed

lemma md_contentType_getAll:
  "md_getAll CONTENT_TYPE_TERM m' = md_getAll CONTENT_TYPE_TERM m \<Longrightarrow>
   md_contentType m' = md_contentType m"
  by (simp add: md_contentType_def md_get_def)

lemma vocabulary_distinct2:
  "RDF_type \<noteq> CONTENT_TYPE_TERM" "DC_modified \<noteq> CONTENT_TYPE_TERM"
  "POSIX_mtime \<noteq> CONTENT_TYPE_TERM" "POSIX_size \<noteq> CONTENT_TYPE_TERM"
  "RDF_type \<noteq> DC_modified" "POSIX_mtime \<noteq> DC_modified" "POSIX_size \<noteq> DC_modified"
  by (simp_all add: CONTENT_TYPE_TERM_def RDF_type_def DC_modified_def POSIX_mtime_def POSIX_size_def)

lemma getAll_updateModifiedDate:
  "md_getAll CONTENT_TYPE_TERM (updateModifiedDate l t m) = md_getAll CONTENT_TYPE_TERM m"
  by (simp add: updateModifiedDate_def Let_def md_getAll_set_other vocabulary_distinct2)

lemma getAll_addResourceMetadata:
  "p \<noteq> RDF_type \<Longrightarrow> md_getAll p (addResourceMetadata c m) = md_getAll p m"
  by (simp add: addResourceMetadata_def Let_def md_getAll_add_other)

lemma addPosixMetadata_Inr:
  assumes "md_get DC_modified m = Inr t"
  shows "\<exists>m'. addPosixMetadata l st m = Inr m'
              \<and> md_getAll CONTENT_TYPE_TERM m' = md_getAll CONTENT_TYPE_TERM m"
  using assms
  by (simp add: addPosixMetadata_def Let_def md_getAll_add_other vocabulary_distinct2
        getAll_updateModifiedDate)

lemma md_get_Inr: "length (md_getAll p m) \<le> 1 \<Longrightarrow> \<exists>t. md_get p m = Inr t"
  by (cases "md_getAll p m" rule: list.exhaust; cases "tl (md_getAll p m)")
     (auto simp: md_get_def split: list.splits)

lemma md_get_length: "md_get p m = Inr t \<Longrightarrow> length (md_getAll p m) \<le> 1"
  by (auto simp: md_get_def split: list.splits)


lemma ident_addQuads [simp]: "ident (md_addQuads qs m) = ident m"
  unfolding md_addQuads_def by (induction qs arbitrary: m) simp_all

lemma filter_addQuads:
  "length (filter P (store m @ qs)) \<le> 1 \<Longrightarrow>
   filter P (store (md_addQuads qs m)) = filter P (store m @ qs)"
  unfolding md_addQuads_def
proof (induction qs arbitrary: m)
  case Nil
  then show ?case by simp
next
  case (Cons q qs)
  show ?case
  proof (cases "q \<in> set (store m)")
    case True
    have notP: "\<not> P q"
    proof
      assume "P q"
      with True have "filter P (store m) \<noteq> []"
        by (auto simp: filter_empty_conv)
      then have "length (filter P (store m)) \<ge> 1"
        by (cases "filter P (store m)") simp_all
      with \<open>P q\<close> Cons.prems show False by simp
    qed
    with Cons.prems have "length (filter P (store m @ qs)) \<le> 1" by simp
    from Cons.IH [OF this] True notP show ?thesis
      by (simp add: md_addQuad_def)
  next
    case False
    let ?m = "m\<lparr>store := store m @ [q]\<rparr>"
    from Cons.prems have "length (filter P (store ?m @ qs)) \<le> 1" by simp
    from Cons.IH [OF this] False show ?thesis
      by (simp add: md_addQuad_def)
  qed
qed

lemma stat_calm:
  "faults w = [] \<Longrightarrow>
   stat p w =
     (if endsWith p ''/'' then
        (case map_of (blobs w) (p @ FOLDER_MARKER) of
           None \<Rightarrow> (Inl (Error ''ENOENT''), w)
         | Some b \<Rightarrow> (Inr \<lparr>isFile = False, isDirectory = True, mtime = stamp b, stat_size = 0\<rparr>, w))
      else
        (case map_of (blobs w) p of
           None \<Rightarrow> (Inl (Error ''ENOENT''), w)
         | Some b \<Rightarrow> (Inr \<lparr>isFile = True, isDirectory = False, mtime = stamp b,
                           stat_size = length (content b)\<rparr>, w)))"
  by (simp add: stat_def catchE_def bindE_cases head_calm returnE_def throwE_def
        describe_def split: option.splits)

lemma createReadStream_calm:
  "faults w = [] \<Longrightarrow> map_of (blobs w) p = Some b \<Longrightarrow>
   createReadStream p w = (Inr (content b), w)"
  by (simp add: createReadStream_def bindE_cases head_calm fetch_calm describe_def)

lemma meta_key_not_container: "\<not> endsWith (''x'' @ c @ ''.meta'') ''/''"
  by (simp add: endsWith_def suffix_def)

lemma getRawMetadata_absent:
  assumes "faults w = []" and "urlPathname l (path i) = Some c"
      and "map_of (blobs w) (''x'' @ c @ ''.meta'') = None"
  shows "getRawMetadata l (VercelBlobDataAccessor l m) i w = (Inr (md_new i), w)"
  using assms meta_key_not_container [of c]
  by (simp add: getRawMetadata_def catchE_def bindE_cases liftE_def fim_map lstat_def stat_calm
        returnE_def)

lemma getRawMetadata_present:
  assumes "faults w = []" and "urlPathname l (path i) = Some c"
      and "map_of (blobs w) (''x'' @ c @ ''.meta'') = Some b"
      and "parseQuads l (content b) None (path i) = Inr qs"
  shows "getRawMetadata l (VercelBlobDataAccessor l m) i w
           = (Inr (updateModifiedDate l (stamp b) (md_addQuads qs (md_new i))), w)"
  using assms meta_key_not_container [of c]
  by (simp add: getRawMetadata_def catchE_def bindE_cases liftE_def fim_map lstat_def stat_calm
        returnE_def createReadStream_calm)


lemma md_get_getAll:
  "md_getAll p m' = md_getAll p m \<Longrightarrow> md_get p m' = md_get p m"
  by (simp add: md_get_def)

lemma md_contentType_removeAll: "md_contentType (md_removeAll CONTENT_TYPE_TERM m) = Inr None"
  by (simp add: md_contentType_def md_get_def md_getAll_removeAll_same)

lemma getFileMetadata_contentType:
  assumes raw: "getRawMetadata l acc (identifier link) w = (Inr r, w)"
      and modified: "md_get DC_modified r = Inr t"
      and ct: "md_contentType r = Inr ct"
      and untyped: "contentType link = None"
  shows "\<exists>meta. getFileMetadata l acc link st w = (Inr meta, w) \<and> md_contentType meta = Inr ct"
proof -
  let ?r = "addResourceMetadata False r"
  have "md_get DC_modified ?r = Inr t"
    using modified
    by (simp add: md_get_getAll [OF getAll_addResourceMetadata] vocabulary_distinct2(5) [THEN not_sym])
  from addPosixMetadata_Inr [OF this, of l st] obtain m' where
        posix: "addPosixMetadata l st ?r = Inr m'"
    and same: "md_getAll CONTENT_TYPE_TERM m' = md_getAll CONTENT_TYPE_TERM ?r"
    by blast
  have "md_getAll CONTENT_TYPE_TERM m' = md_getAll CONTENT_TYPE_TERM r"
    using same by (simp add: getAll_addResourceMetadata vocabulary_distinct2(1) [THEN not_sym])
  from md_contentType_getAll [OF this] ct have ct': "md_contentType m' = Inr ct"
    by simp
  have base: "getBaseMetadata l acc link st False w = (Inr m', w)"
    by (simp add: getBaseMetadata_def bindE_cases raw liftE_def posix)
  show ?thesis
  proof (cases ct)
    case None
    with base ct' untyped show ?thesis
      by (simp add: getFileMetadata_def bindE_cases liftE_def returnE_def md_set_def
            md_contentType_removeAll)
  next
    case (Some v)
    with base ct' show ?thesis
      by (simp add: getFileMetadata_def bindE_cases liftE_def returnE_def)
  qed
qed

lemma md_get_new: "md_get p (md_new i) = Inr None"
  by (simp add: md_get_def md_getAll_def md_new_def)

lemma md_contentType_new: "md_contentType (md_new i) = Inr None"
  by (simp add: md_contentType_def md_get_new)

lemma md_get_updateModifiedDate:
  "\<exists>t. md_get DC_modified (updateModifiedDate l d m) = Inr t"
  by (simp add: updateModifiedDate_def Let_def md_get_def md_getAll_set_same)

lemma md_contentType_parsed:
  assumes "md_contentType md' = Inr ct" and "ident md' = NamedNode (path i)"
  shows "md_contentType (updateModifiedDate l d (md_addQuads (md_quads md') (md_new i))) = Inr ct"
proof -
  let ?P = "\<lambda>q. subject q = NamedNode (path i) \<and> predicate q = CONTENT_TYPE_TERM"
  from assms(1) have "\<exists>t. md_get CONTENT_TYPE_TERM md' = Inr t"
    by (auto simp: md_contentType_def split: sum.splits)
  then have "length (md_getAll CONTENT_TYPE_TERM md') \<le> 1"
    by (auto dest: md_get_length)
  then have "length (filter ?P (store (md_new i) @ md_quads md')) \<le> 1"
    using assms(2) by (simp add: md_getAll_def md_new_def md_quads_def)
  from filter_addQuads [OF this]
  have "md_getAll CONTENT_TYPE_TERM (md_addQuads (md_quads md') (md_new i))
          = md_getAll CONTENT_TYPE_TERM md'"
    using assms(2) by (simp add: md_getAll_def md_new_def md_quads_def)
  then have "md_getAll CONTENT_TYPE_TERM (updateModifiedDate l d (md_addQuads (md_quads md') (md_new i)))
          = md_getAll CONTENT_TYPE_TERM md'"
    by (simp add: getAll_updateModifiedDate)
  from md_contentType_getAll [OF this] assms(1) show ?thesis by simp
qed


lemma ident_withoutStorageFacts [simp]: "ident (withoutStorageFacts d m) = ident m"
  by (simp add: withoutStorageFacts_def)

lemma md_contentType_withoutStorageFacts:
  assumes "md_contentType m = Inr ct"
  shows "md_contentType (withoutStorageFacts (ct = None) m) = Inr ct"
proof (cases ct)
  case None
  have "withoutStorageFacts True m = md_removeAll CONTENT_TYPE_TERM (strip4 m)"
    by (simp add: strip5_eq)
  with None show ?thesis by (simp add: md_contentType_removeAll)
next
  case (Some v)
  have "md_contentType (withoutStorageFacts False m) = md_contentType m"
    using md_contentType_strip4 [of m] by (simp add: strip4_eq)
  with Some assms show ?thesis by simp
qed

lemma md_contentType_no_quads:
  "md_quads m = [] \<Longrightarrow> md_contentType m = Inr None"
  by (simp add: md_contentType_def md_get_def md_getAll_def md_quads_def)

lemma getData_calm:
  assumes "faults w = []" and "urlPathname l (path i) = Some c"
      and "\<not> isContainerPath (''x'' @ c)" and "map_of (blobs w) (''x'' @ c) = Some b"
  shows "getData (VercelBlobDataAccessor l m) i w = (Inr (content b), w)"
  using assms
  by (simp add: getData_def bindE_cases liftE_def fim_map getStats_calm isContainerPath_def
        createReadStream_calm)

lemma getMetadata_document_calm:
  assumes "faults w = []" and "urlPathname l (path i) = Some c"
      and "\<not> isContainerIdentifier i"
      and "\<not> isContainerPath (''x'' @ c)" and "map_of (blobs w) (''x'' @ c) = Some b"
  shows "getMetadata l (VercelBlobDataAccessor l m) i w =
           getFileMetadata l (VercelBlobDataAccessor l m)
             \<lparr>identifier = i, filePath = ''x'' @ c, contentType = None, isMetadata = False\<rparr>
             \<lparr>isFile = True, isDirectory = False, mtime = stamp b, stat_size = length (content b)\<rparr> w"
  using assms
  by (simp add: getMetadata_def bindE_cases liftE_def fim_map getStats_calm isContainerPath_def)

text \<open>
  C2, as amended. Let \<^verbatim>\<open>writeDocument\<close> return for a document identifier whose
  key (\<open>x\<close> and the URL's pathname) does not end in a separator, with metadata about
  that identifier. While the store answers, and
  given that the codec reads back the sidecar it printed, \<^verbatim>\<open>getData\<close> then returns
  exactly the bytes written and \<^verbatim>\<open>getMetadata\<close> returns metadata whose content-type
  is the content-type of the metadata written.
\<close>

theorem writeDocument_roundtrip:
  assumes pathname: "urlPathname l (path i) = Some c"
      and document: "\<not> isContainerIdentifier i" "\<not> isContainerPath (''x'' @ c)"
      and about: "ident md = NamedNode (path i)"
      and written: "writeDocument l (VercelBlobDataAccessor l m) i data (md, w) = (Inr (), (md', w'))"
      and codec: "md_quads md' \<noteq> [] \<longrightarrow>
                    parseQuads l (serializeQuads l (md_quads md') None) None (path i)
                      = Inr (md_quads md')"
      and quiet: "faults w' = []"
  shows "getData (VercelBlobDataAccessor l m) i w' = (Inr data, w')
         \<and> (\<exists>meta. getMetadata l (VercelBlobDataAccessor l m) i w' = (Inr meta, w')
                   \<and> md_contentType meta = md_contentType md)"
proof -
  let ?acc = "VercelBlobDataAccessor l m"
  let ?link = "\<lparr>identifier = i, filePath = ''x'' @ c, contentType = None, isMetadata = False\<rparr>"
  let ?meta = "\<lparr>identifier = i, filePath = ''x'' @ c @ ''.meta'', contentType = None, isMetadata = True\<rparr>"
  from writeDocument_fim_Inr [OF pathname written] obtain ct wrote w1 where
        g: "md_contentType md = Inr ct"
    and f: "writeMetadataFile l ?acc ?link (md, w) = (Inr wrote, (md', w1))"
    and p: "put (''x'' @ c) data w1 = (Inr (), w')"
    by blast
  have ml: "mapUrlToFilePath (resourceMapper ?acc) (identifier ?link) True None = Inr ?meta"
    using pathname by (simp add: fim_map)
  have implied: "typeImpliedByKey ?link md = (ct = None)"
    using document(2) g by (auto simp: typeImpliedByKey_def)
  have md': "md' = withoutStorageFacts (ct = None) md"
    using writeMetadataFile_Inr_md [OF f] by (simp only: implied)
  have ct': "md_contentType md' = Inr ct"
    unfolding md' by (rule md_contentType_withoutStorageFacts [OF g])
  have id': "ident md' = NamedNode (path i)"
    unfolding md' using about by simp
  have holds1: "sidecarHolds l w1 (filePath ?meta) md'"
    by (rule sidecar_after_writeMetadataFile [OF f ml]) simp
  have "map_of (blobs w') (''x'' @ c @ ''.meta'') = map_of (blobs w1) (''x'' @ c @ ''.meta'')"
    using map_of_put [OF p] by simp
  from sidecarHolds_cong [OF this] holds1
  have holds: "sidecarHolds l w' (''x'' @ c @ ''.meta'') md'"
    by simp
  have stored: "map_of (blobs w') (''x'' @ c) = Some \<lparr>content = data, stamp = now w1\<rparr>"
    using map_of_put [OF p] by simp
  have read: "getData ?acc i w' = (Inr data, w')"
    using getData_calm [OF quiet pathname document(2) stored] by simp
  have "\<exists>r t. getRawMetadata l ?acc (identifier ?link) w' = (Inr r, w')
            \<and> md_get DC_modified r = Inr t \<and> md_contentType r = Inr ct"
  proof (cases "md_quads md' = []")
    case True
    with holds have "map_of (blobs w') (''x'' @ c @ ''.meta'') = None"
      by (simp add: sidecarHolds_def exists_key_def)
    from getRawMetadata_absent [OF quiet pathname this]
    have "getRawMetadata l ?acc (identifier ?link) w' = (Inr (md_new i), w')" by simp
    moreover from True ct' have "ct = None"
      by (simp add: md_contentType_no_quads)
    ultimately show ?thesis
      by (auto simp: md_get_new md_contentType_new)
  next
    case False
    with holds obtain b where
          b: "map_of (blobs w') (''x'' @ c @ ''.meta'') = Some b"
      and cb: "content b = serializeQuads l (md_quads md') None"
      by (auto simp: sidecarHolds_def)
    from False codec cb have "parseQuads l (content b) None (path i) = Inr (md_quads md')"
      by simp
    from getRawMetadata_present [OF quiet pathname b this]
    have "getRawMetadata l ?acc (identifier ?link) w'
            = (Inr (updateModifiedDate l (stamp b) (md_addQuads (md_quads md') (md_new i))), w')"
      by simp
    with md_get_updateModifiedDate [of l "stamp b" "md_addQuads (md_quads md') (md_new i)"]
         md_contentType_parsed [OF ct' id', of l "stamp b"]
    show ?thesis by blast
  qed
  then obtain r t where
        raw: "getRawMetadata l ?acc (identifier ?link) w' = (Inr r, w')"
    and modified: "md_get DC_modified r = Inr t" and rct: "md_contentType r = Inr ct"
    by blast
  have untyped: "contentType ?link = None" by simp
  from getFileMetadata_contentType [OF raw modified rct untyped]
       getMetadata_document_calm [OF quiet pathname document stored]
  have "\<exists>meta. getMetadata l ?acc i w' = (Inr meta, w') \<and> md_contentType meta = Inr ct"
    by simp
  with read g show ?thesis by simp
qed


theorem writeDocument_roundtrip_witness:
  "urlPathname demo_lib (path demo_id) = Some ''/docs/a''
   \<and> \<not> isContainerIdentifier demo_id
   \<and> \<not> isContainerPath ''x/docs/a''
   \<and> ident demo_md_kind = NamedNode (path demo_id)
   \<and> writeDocument demo_lib demo_acc demo_id ''hello'' (demo_md_kind, calm [])
       = (Inr (), (demo_md, calm [(''x/docs/a.meta'', blob (demo_serialize [demo_type_quad] None) 5),
                                 (''x/docs/a'', blob ''hello'' 5)]))
   \<and> md_quads demo_md \<noteq> []
   \<and> parseQuads demo_lib (serializeQuads demo_lib (md_quads demo_md) None) None (path demo_id)
       = Inr (md_quads demo_md)
   \<and> getData demo_acc demo_id
         (calm [(''x/docs/a.meta'', blob (demo_serialize [demo_type_quad] None) 5),
                (''x/docs/a'', blob ''hello'' 5)])
       = (Inr ''hello'', calm [(''x/docs/a.meta'', blob (demo_serialize [demo_type_quad] None) 5),
                               (''x/docs/a'', blob ''hello'' 5)])
   \<and> (\<exists>meta. getMetadata demo_lib demo_acc demo_id
                   (calm [(''x/docs/a.meta'', blob (demo_serialize [demo_type_quad] None) 5),
                          (''x/docs/a'', blob ''hello'' 5)])
                 = (Inr meta, calm [(''x/docs/a.meta'', blob (demo_serialize [demo_type_quad] None) 5),
                                    (''x/docs/a'', blob ''hello'' 5)])
               \<and> md_contentType meta = Inr (Some ''text/plain''))"
proof -
  let ?acc = "VercelBlobDataAccessor demo_lib (fim demo_lib)"
  let ?w = "calm [(''x/docs/a.meta'', blob (demo_serialize [demo_type_quad] None) 5),
                  (''x/docs/a'', blob ''hello'' 5)]"
  have p: "urlPathname demo_lib (path demo_id) = Some ''/docs/a''"
    by code_simp
  have d1: "\<not> isContainerIdentifier demo_id"
    by code_simp
  have d2: "\<not> isContainerPath (''x'' @ ''/docs/a'')"
    by code_simp
  have a: "ident demo_md_kind = NamedNode (path demo_id)"
    by code_simp
  have r: "writeDocument demo_lib ?acc demo_id ''hello'' (demo_md_kind, calm []) = (Inr (), (demo_md, ?w))"
    by code_simp
  have n: "md_quads demo_md \<noteq> []"
    by code_simp
  have c: "parseQuads demo_lib (serializeQuads demo_lib (md_quads demo_md) None) None (path demo_id)
             = Inr (md_quads demo_md)"
    by code_simp
  then have c': "md_quads demo_md \<noteq> [] \<longrightarrow>
             parseQuads demo_lib (serializeQuads demo_lib (md_quads demo_md) None) None (path demo_id)
             = Inr (md_quads demo_md)"
    by simp
  have q: "faults ?w = []"
    by code_simp
  have t: "md_contentType demo_md_kind = Inr (Some ''text/plain'')"
    by code_simp
  note rt = writeDocument_roundtrip [OF p d1 d2 a r c' q]
  from rt have g: "getData ?acc demo_id ?w = (Inr ''hello'', ?w)"
    by (rule conjunct1)
  from rt t have e: "\<exists>meta. getMetadata demo_lib ?acc demo_id ?w = (Inr meta, ?w)
                        \<and> md_contentType meta = Inr (Some ''text/plain'')"
    by simp
  from p d1 d2 a r n c g e show ?thesis
    by (simp add: demo_acc_def)
qed

text \<open>
  The claim as stated, for every document identifier, fails where the pathname of the
  URL ends in a separator although the identifier does not: \<open>http://h/docs/?v=1\<close> is
  a document identifier, its key is \<open>x/docs/\<close>, the write returns, and both reads
  then look for the folder marker of that key and report that nothing is there.
\<close>

theorem writeDocument_roundtrip_counterexample:
  "\<not> isContainerIdentifier demo_query_id
   \<and> urlPathname demo_lib (path demo_query_id) = Some ''/docs/''
   \<and> writeDocument demo_lib demo_acc demo_query_id ''hello''
         (demo_md_turtle ''http://h/docs/?v=1'', calm [])
       = (Inr (), (\<lparr>ident = NamedNode ''http://h/docs/?v=1'', store = []\<rparr>,
                   calm [(''x/docs/'', blob ''hello'' 5)]))
   \<and> getData demo_acc demo_query_id (calm [(''x/docs/'', blob ''hello'' 5)])
       = (Inl NotFoundHttpError, calm [(''x/docs/'', blob ''hello'' 5)])
   \<and> getMetadata demo_lib demo_acc demo_query_id (calm [(''x/docs/'', blob ''hello'' 5)])
       = (Inl NotFoundHttpError, calm [(''x/docs/'', blob ''hello'' 5)])"
  by code_simp

subsection \<open>The caller's metadata object\<close>

lemma withoutStorageFacts_no_type:
  assumes "md_contentType m = Inr None"
  shows "withoutStorageFacts d m = withoutStorageFacts False m"
proof -
  from assms have "md_getAll CONTENT_TYPE_TERM m = []"
    by (cases "md_getAll CONTENT_TYPE_TERM m" rule: remdups_adj.cases)
       (simp_all add: md_contentType_def md_get_def)
  then have "\<forall>q \<in> set (store m). \<not> statesContentType m q"
    by (auto simp: md_getAll_def filter_empty_conv statesContentType_def)
  then have "filter (\<lambda>q. \<not> restatesStorageFact m q \<and> \<not> (d \<and> statesContentType m q)) (store m)
           = filter (\<lambda>q. \<not> restatesStorageFact m q \<and> \<not> (False \<and> statesContentType m q)) (store m)"
    by (intro filter_cong refl) auto
  then show ?thesis
    by (simp add: withoutStorageFacts_def)
qed

lemma md_contentType_kept: "md_contentType (withoutStorageFacts False m) = md_contentType m"
  using md_contentType_strip4 [of m] by (simp add: strip4_eq)

lemma md_contentType_dropped: "md_contentType (withoutStorageFacts True m) = Inr None"
  using md_contentType_removeAll [of "strip4 m"] by (simp add: strip5_eq)

lemma link_mutation:
  assumes run: "writeMetadataFile l acc
                  \<lparr>identifier = i, filePath = p, contentType = None, isMetadata = b\<rparr>
                  (md, w) = (Inr wrote, (md', w'))"
  shows "md' = withoutStorageFacts (isContainerPath p) md"
proof (cases "isContainerPath p")
  case True
  with writeMetadataFile_Inr_md [OF run] show ?thesis
    by (simp add: typeImpliedByKey_def)
next
  case False
  show ?thesis
  proof (cases "md_contentType md = Inr None")
    case True
    with writeMetadataFile_Inr_md [OF run] have "md' = withoutStorageFacts True md"
      by (simp add: typeImpliedByKey_def)
    with withoutStorageFacts_no_type [OF True, of True] False show ?thesis
      by simp
  next
    case no: False
    then have "None \<noteq> ct" if "md_contentType md = Inr ct" for ct
      using that by auto
    with writeMetadataFile_Inr_md [OF run] False no show ?thesis
      by (auto simp: typeImpliedByKey_def)
  qed
qed

text \<open>
  C10, as amended. Each write operation of the accessor that returns has mutated the
  metadata object it was given: the object is left without the LDP Resource, Container
  and BasicContainer types of its subject and without its \<open>dc:modified\<close> values, and
  every other quad stays, but for the content-type. \<^verbatim>\<open>writeDocument\<close> and
  \<^verbatim>\<open>writeContainer\<close> take the content-type away when the key of the resource
  (\<open>x\<close> and the URL's pathname) ends in a separator, and keep it otherwise;
  \<^verbatim>\<open>writeMetadata\<close>, whose link is the sidecar's, always keeps it. (The links of the
  hardcoded mapper carry no content-type, so none is ever dropped for matching one.)
\<close>

theorem write_operations_mutate_metadata:
  assumes pathname: "urlPathname l (path i) = Some c"
  shows
   "(\<forall>md' w'. writeDocument l (VercelBlobDataAccessor l m) i data (md, w) = (Inr (), (md', w')) \<longrightarrow>
       md' = withoutStorageFacts (isContainerPath (''x'' @ c)) md
       \<and> md_contentType md' = (if isContainerPath (''x'' @ c) then Inr None else md_contentType md))
    \<and> (\<forall>md' w'. writeContainer l (VercelBlobDataAccessor l m) i (md, w) = (Inr (), (md', w')) \<longrightarrow>
       md' = withoutStorageFacts (isContainerPath (''x'' @ c)) md
       \<and> md_contentType md' = (if isContainerPath (''x'' @ c) then Inr None else md_contentType md))
    \<and> (\<forall>md' w'. writeMetadata l (VercelBlobDataAccessor l m) i (md, w) = (Inr (), (md', w')) \<longrightarrow>
       md' = withoutStorageFacts False md
       \<and> md_contentType md' = md_contentType md)"
proof (intro conjI impI allI)
  let ?acc = "VercelBlobDataAccessor l m"
  let ?d = "isContainerPath (''x'' @ c)"
  have getter: "md_contentType (withoutStorageFacts ?d md)
                  = (if ?d then Inr None else md_contentType md)"
    by (simp add: md_contentType_kept md_contentType_dropped)
  have sidecar: "\<not> isContainerPath (''x'' @ c @ ''.meta'')"
    by (simp add: isContainerPath_def endsWith_def suffix_def)
  {
    fix md' w'
    assume "writeDocument l ?acc i data (md, w) = (Inr (), (md', w'))"
    from writeDocument_fim_Inr [OF pathname this] obtain wrote w1 where
      "writeMetadataFile l ?acc
         \<lparr>identifier = i, filePath = ''x'' @ c, contentType = None, isMetadata = False\<rparr>
         (md, w) = (Inr wrote, (md', w1))"
      by blast
    then show d: "md' = withoutStorageFacts ?d md"
      by (rule link_mutation)
    show "md_contentType md' = (if ?d then Inr None else md_contentType md)"
      unfolding d by (rule getter)
  }
  {
    fix md' w'
    assume "writeContainer l ?acc i (md, w) = (Inr (), (md', w'))"
    from writeContainer_fim_Inr [OF pathname this] obtain wrote w0 where
      "writeMetadataFile l ?acc
         \<lparr>identifier = i, filePath = ''x'' @ c, contentType = None, isMetadata = False\<rparr>
         (md, w0) = (Inr wrote, (md', w'))"
      by blast
    then show d: "md' = withoutStorageFacts ?d md"
      by (rule link_mutation)
    show "md_contentType md' = (if ?d then Inr None else md_contentType md)"
      unfolding d by (rule getter)
  }
  {
    fix md' w'
    assume "writeMetadata l ?acc i (md, w) = (Inr (), (md', w'))"
    from writeMetadata_fim_Inr [OF pathname this] obtain wrote where
      "writeMetadataFile l ?acc
         \<lparr>identifier = i, filePath = ''x'' @ c @ ''.meta'', contentType = None, isMetadata = True\<rparr>
         (md, w) = (Inr wrote, (md', w'))"
      by blast
    from link_mutation [OF this] sidecar show d: "md' = withoutStorageFacts False md"
      by simp
    show "md_contentType md' = md_contentType md"
      unfolding d by (rule md_contentType_kept)
  }
qed

theorem write_operations_mutate_metadata_witness:
  "urlPathname demo_lib (path demo_dir) = Some ''/docs/''
   \<and> urlPathname demo_lib (path demo_id) = Some ''/docs/a''
   \<and> isContainerPath ''x/docs/'' \<and> \<not> isContainerPath ''x/docs/a''
   \<and> md_contentType (demo_md_full ''http://h/docs/'') = Inr (Some ''text/turtle'')
   \<and> md_getAll DC_modified (demo_md_full ''http://h/docs/'') \<noteq> []
   \<and> writeContainer demo_lib demo_acc demo_dir (demo_md_full ''http://h/docs/'', calm [])
       = (Inr (), (\<lparr>ident = NamedNode ''http://h/docs/'', store = []\<rparr>,
                   calm [(''x/docs/.FOLDER_MARKER_META_FILE'', blob ''nothing here'' 5)]))
   \<and> \<lparr>ident = NamedNode ''http://h/docs/'', store = []\<rparr>
       = withoutStorageFacts True (demo_md_full ''http://h/docs/'')
   \<and> md_contentType \<lparr>ident = NamedNode ''http://h/docs/'', store = []\<rparr> = Inr None
   \<and> writeDocument demo_lib demo_acc demo_id ''hello'' (demo_md_full ''http://h/docs/a'', calm [])
       = (Inr (), (demo_md_turtle ''http://h/docs/a'',
                   calm [(''x/docs/a.meta'',
                            blob (demo_serialize [demo_turtle_quad ''http://h/docs/a''] None) 5),
                         (''x/docs/a'', blob ''hello'' 5)]))
   \<and> demo_md_turtle ''http://h/docs/a'' = withoutStorageFacts False (demo_md_full ''http://h/docs/a'')
   \<and> md_contentType (demo_md_turtle ''http://h/docs/a'') = Inr (Some ''text/turtle'')
   \<and> writeMetadata demo_lib demo_acc demo_dir (demo_md_full ''http://h/docs/'', calm [])
       = (Inr (), (demo_md_turtle ''http://h/docs/'',
                   calm [(''x/docs/.meta'',
                            blob (demo_serialize [demo_turtle_quad ''http://h/docs/''] None) 5)]))
   \<and> demo_md_turtle ''http://h/docs/'' = withoutStorageFacts False (demo_md_full ''http://h/docs/'')
   \<and> md_contentType (demo_md_turtle ''http://h/docs/'') = Inr (Some ''text/turtle'')"
proof -
  let ?acc = "VercelBlobDataAccessor demo_lib (fim demo_lib)"
  let ?none = "\<lparr>ident = NamedNode ''http://h/docs/'', store = []\<rparr>"
  have pd: "urlPathname demo_lib (path demo_dir) = Some ''/docs/''"
    by code_simp
  have pa: "urlPathname demo_lib (path demo_id) = Some ''/docs/a''"
    by code_simp
  have kd: "isContainerPath (''x'' @ ''/docs/'')"
    by code_simp
  have ka: "\<not> isContainerPath (''x'' @ ''/docs/a'')"
    by code_simp
  have td: "md_contentType (demo_md_full ''http://h/docs/'') = Inr (Some ''text/turtle'')"
    by code_simp
  have ta: "md_contentType (demo_md_full ''http://h/docs/a'') = Inr (Some ''text/turtle'')"
    by code_simp
  have dm: "md_getAll DC_modified (demo_md_full ''http://h/docs/'') \<noteq> []"
    by code_simp
  have c: "writeContainer demo_lib ?acc demo_dir (demo_md_full ''http://h/docs/'', calm [])
       = (Inr (), (?none, calm [(''x/docs/.FOLDER_MARKER_META_FILE'', blob ''nothing here'' 5)]))"
    by code_simp
  have d: "writeDocument demo_lib ?acc demo_id ''hello'' (demo_md_full ''http://h/docs/a'', calm [])
       = (Inr (), (demo_md_turtle ''http://h/docs/a'',
                   calm [(''x/docs/a.meta'',
                            blob (demo_serialize [demo_turtle_quad ''http://h/docs/a''] None) 5),
                         (''x/docs/a'', blob ''hello'' 5)]))"
    by code_simp
  have m: "writeMetadata demo_lib ?acc demo_dir (demo_md_full ''http://h/docs/'', calm [])
       = (Inr (), (demo_md_turtle ''http://h/docs/'',
                   calm [(''x/docs/.meta'',
                            blob (demo_serialize [demo_turtle_quad ''http://h/docs/''] None) 5)]))"
    by code_simp
  from write_operations_mutate_metadata
         [OF pd, of "fim demo_lib" "[]" "demo_md_full ''http://h/docs/''" "calm []"] c kd
  have c1: "?none = withoutStorageFacts True (demo_md_full ''http://h/docs/'')"
    and c2: "md_contentType ?none = Inr None"
    by auto
  from write_operations_mutate_metadata
         [OF pa, of "fim demo_lib" "''hello''" "demo_md_full ''http://h/docs/a''" "calm []"] d ka ta
  have d1: "demo_md_turtle ''http://h/docs/a'' = withoutStorageFacts False (demo_md_full ''http://h/docs/a'')"
    and d2: "md_contentType (demo_md_turtle ''http://h/docs/a'') = Inr (Some ''text/turtle'')"
    by auto
  from write_operations_mutate_metadata
         [OF pd, of "fim demo_lib" "[]" "demo_md_full ''http://h/docs/''" "calm []"] m td
  have m1: "demo_md_turtle ''http://h/docs/'' = withoutStorageFacts False (demo_md_full ''http://h/docs/'')"
    and m2: "md_contentType (demo_md_turtle ''http://h/docs/'') = Inr (Some ''text/turtle'')"
    by auto
  from kd ka have kd': "isContainerPath ''x/docs/''" and ka': "\<not> isContainerPath ''x/docs/a''"
    by simp_all
  from pd pa kd' ka' td dm c c1 c2 d d1 d2 m m1 m2 show ?thesis
    unfolding demo_acc_def by (intro conjI)
qed

text \<open>
  The claim as stated fails for \<^verbatim>\<open>writeMetadata\<close> on a container: the link it hands to
  \<^verbatim>\<open>writeMetadataFile\<close> is the sidecar's, whose key ends in \<open>.meta\<close>, so the
  content-type of the caller's object is still there after the call.
\<close>

theorem writeMetadata_keeps_contentType_counterexample:
  "isContainerIdentifier demo_dir
   \<and> md_contentType (demo_md_turtle ''http://h/docs/'') = Inr (Some ''text/turtle'')
   \<and> writeMetadata demo_lib demo_acc demo_dir (demo_md_turtle ''http://h/docs/'', calm [])
       = (Inr (), (demo_md_turtle ''http://h/docs/'',
                   calm [(''x/docs/.meta'',
                            blob (demo_serialize [demo_turtle_quad ''http://h/docs/''] None) 5)]))"
  by code_simp

end
